theory Spec2Isabelle
  imports Main "HOL-Library.Word" "HOL-Library.Signed_Division"
begin

unbundle bit_operations_syntax

section \<open>Host side: compute graph, tensors and nodes\<close>

text \<open>
  The host code under study (\<^verbatim>\<open>Int8x4Staging.cpp\<close>, \<^verbatim>\<open>Where.cpp\<close>) works on a
  \<^verbatim>\<open>ComputeGraph\<close> whose class is declared elsewhere. The graph is an arena: a dense
  table of values addressed by integer handles (\<^verbatim>\<open>ValueRef\<close>), plus the ordered lists
  of prepack and execute nodes. A failed \<^verbatim>\<open>VK_CHECK_COND\<close>, a failed
  \<^verbatim>\<open>safe_downcast\<close> and an out-of-range \<^verbatim>\<open>std::vector::at\<close> throw; a builder is
  therefore a function from the graph to a status (\<open>None\<close> for a normal return) and the
  graph as it is when the call ends.
\<close>

type_synonym ValueRef = nat

datatype error = CheckFailed | OutOfRange | DowncastFailed | NotATensor | SignedOverflow

datatype ScalarType = kInt8x4 | kInt8 | kUInt8 | kInt32 | kHalf | kFloat | kBool

datatype StorageType = kBuffer | kTexture3D | kTexture2D

datatype MemoryAccessFlags = kRead | kWrite

record vTensor =
  tensor_sizes :: "int list"
  tensor_dtype :: ScalarType
  tensor_storage_type :: StorageType
  tensor_packed_dim :: nat
  tensor_hashed_layout :: int
  tensor_capacity :: nat
  tensor_contents :: "32 word list"

datatype Value = Tensor vTensor | TensorRef "8 word list" | Staging "32 word list" | NoneValue

record ArgGroup =
  refs :: "ValueRef list"
  access :: MemoryAccessFlags

type_synonym uvec3 = "32 word \<times> 32 word \<times> 32 word"

text \<open>A kernel is found by name; the where kernel's name gets a storage and a dtype suffix.\<close>

record ShaderInfo =
  kernel_name :: string
  storage_suffix :: "StorageType option"
  dtype_suffix :: "ScalarType option"

datatype global_wg_size_fn =
  default_pick_global_wg_size
  | staging_to_int8x4_buffer_global_wg_size_fn
  | int8x4_buffer_to_staging_global_wg_size_fn

datatype local_wg_size_fn = default_pick_local_wg_size

datatype resize_fn = resize_where_node_fn

datatype ParamsBind = buffer_meta_ubo ValueRef | meta_ubo ValueRef

record PrepackNode =
  pn_shader :: ShaderInfo
  pn_global_wg_size :: uvec3
  pn_local_wg_size :: uvec3
  pn_tref :: ValueRef
  pn_packed :: ValueRef
  pn_params :: "ParamsBind list"
  pn_spec_vars :: "int list"

record DynamicDispatchNode =
  dn_shader :: ShaderInfo
  dn_pick_global_wg_fn :: global_wg_size_fn
  dn_pick_local_wg_fn :: local_wg_size_fn
  dn_args :: "ArgGroup list"
  dn_params :: "ParamsBind list"
  dn_push_constants :: "int list"
  dn_spec_vars :: "int list"
  dn_resize_args :: "ValueRef list"
  dn_resize_fn :: "resize_fn option"

record ComputeGraph =
  graph_values :: "Value list"
  prepack_nodes :: "PrepackNode list"
  execute_nodes :: "DynamicDispatchNode list"

subsection \<open>Graph accessors\<close>

definition get_tensor :: "ComputeGraph \<Rightarrow> ValueRef \<Rightarrow> error + vTensor" where
  "get_tensor graph idx =
     (if idx < length (graph_values graph)
      then (case graph_values graph ! idx of Tensor t \<Rightarrow> Inr t | _ \<Rightarrow> Inl NotATensor)
      else Inl OutOfRange)"

definition dtype_of :: "ComputeGraph \<Rightarrow> ValueRef \<Rightarrow> error + ScalarType" where
  "dtype_of graph idx = map_sum id tensor_dtype (get_tensor graph idx)"

definition dim_of :: "ComputeGraph \<Rightarrow> ValueRef \<Rightarrow> error + nat" where
  "dim_of graph idx = map_sum id (\<lambda>t. length (tensor_sizes t)) (get_tensor graph idx)"

definition sizes_of :: "ComputeGraph \<Rightarrow> ValueRef \<Rightarrow> error + int list" where
  "sizes_of graph idx = map_sum id tensor_sizes (get_tensor graph idx)"

definition storage_type_of :: "ComputeGraph \<Rightarrow> ValueRef \<Rightarrow> error + StorageType" where
  "storage_type_of graph idx = map_sum id tensor_storage_type (get_tensor graph idx)"

definition hashed_layout_of :: "ComputeGraph \<Rightarrow> ValueRef \<Rightarrow> error + int" where
  "hashed_layout_of graph idx = map_sum id tensor_hashed_layout (get_tensor graph idx)"

definition numel_sizes :: "int list \<Rightarrow> int" where
  "numel_sizes szs = prod_list szs"

definition numel_of :: "ComputeGraph \<Rightarrow> ValueRef \<Rightarrow> error + int" where
  "numel_of graph idx = map_sum id (\<lambda>t. numel_sizes (tensor_sizes t)) (get_tensor graph idx)"

text \<open>
  Modelled from the spec: \<^verbatim>\<open>padded_numel\<close> is not in the sources at hand. The spec
  gives it as the physical element count after rounding the packed dimension up to a
  multiple of the pack factor 4. The packed dimension counts from the innermost (width)
  dimension, which is the last entry of the size list.
\<close>

definition align_up_4 :: "int \<Rightarrow> int" where
  "align_up_4 n = ((n + 3) div 4) * 4"

definition padded_sizes :: "vTensor \<Rightarrow> int list" where
  "padded_sizes t =
     (let szs = tensor_sizes t; k = length szs - 1 - tensor_packed_dim t
      in if tensor_packed_dim t < length szs then szs[k := align_up_4 (szs ! k)] else szs)"

definition padded_numel_of :: "ComputeGraph \<Rightarrow> ValueRef \<Rightarrow> error + int" where
  "padded_numel_of graph idx =
     map_sum id (\<lambda>t. numel_sizes (padded_sizes t)) (get_tensor graph idx)"

definition safe_downcast_uint32 :: "int \<Rightarrow> error + 32 word" where
  "safe_downcast_uint32 n =
     (if 0 \<le> n \<and> n < 2 ^ 32 then Inr (word_of_int n) else Inl DowncastFailed)"

definition VK_CHECK_COND :: "bool \<Rightarrow> error + unit" where
  "VK_CHECK_COND c = (if c then Inr () else Inl CheckFailed)"

definition at_vec :: "'a list \<Rightarrow> nat \<Rightarrow> error + 'a" where
  "at_vec xs i = (if i < length xs then Inr (xs ! i) else Inl OutOfRange)"

text \<open>
  Modelled from the spec: \<^verbatim>\<open>virtual_resize\<close> is not in the sources at hand. The spec
  says that a resize call corrects the sizes in place, does not reallocate backing
  storage if capacity suffices, and only updates metadata. A resize beyond the capacity
  is the shape error that is fatal to that execution and leaves the graph as it was.
\<close>

definition virtual_resize :: "ComputeGraph \<Rightarrow> ValueRef \<Rightarrow> int list \<Rightarrow> error option \<times> ComputeGraph" where
  "virtual_resize graph idx new_sizes =
     (case get_tensor graph idx of
        Inl e \<Rightarrow> (Some e, graph)
      | Inr t \<Rightarrow>
          if numel_sizes new_sizes \<le> int (tensor_capacity t)
          then (None, graph\<lparr>graph_values :=
                  (graph_values graph)[idx := Tensor (t\<lparr>tensor_sizes := new_sizes\<rparr>)]\<rparr>)
          else (Some CheckFailed, graph))"

text \<open>
  \<open>throwing r graph k\<close>: evaluate a call that may throw. When it throws, the builder ends
  with that error and the graph as it is at that point; otherwise \<open>k\<close> goes on with
  the call's value.
\<close>

definition throwing ::
  "error + 'a \<Rightarrow> ComputeGraph \<Rightarrow> ('a \<Rightarrow> error option \<times> ComputeGraph) \<Rightarrow> error option \<times> ComputeGraph" where
  "throwing r graph k = (case r of Inl e \<Rightarrow> (Some e, graph) | Inr x \<Rightarrow> k x)"

definition and_then :: "error + 'a \<Rightarrow> ('a \<Rightarrow> error + 'b) \<Rightarrow> error + 'b" where
  "and_then r k = (case r of Inl e \<Rightarrow> Inl e | Inr x \<Rightarrow> k x)"

subsection \<open>Int8x4Staging.cpp\<close>

text \<open>
  \<^verbatim>\<open>create_local_wg_size\<close> is a graph method that is not in the sources at hand; only
  its result is stored in the prepack node. It is a parameter of the builder's model.
\<close>

definition add_prepack_int8x4_buffer_node ::
  "(uvec3 \<Rightarrow> uvec3) \<Rightarrow> ComputeGraph \<Rightarrow> ValueRef \<Rightarrow> ValueRef \<Rightarrow> error option \<times> ComputeGraph" where
  "add_prepack_int8x4_buffer_node create_local_wg_size graph tensor_data tensor =
     throwing (dtype_of graph tensor) graph (\<lambda>dt.
     throwing (VK_CHECK_COND (dt = kInt8x4)) graph (\<lambda>_.
     throwing (dim_of graph tensor) graph (\<lambda>d.
     throwing (VK_CHECK_COND (d \<le> 4)) graph (\<lambda>_.
     let kernel_name = ''nchw_to_int8x4_buffer'';
         param_buffers = [] @ [buffer_meta_ubo tensor]
     in
     throwing (padded_numel_of graph tensor) graph (\<lambda>pn.
     throwing (safe_downcast_uint32 (pn div 4)) graph (\<lambda>num_texels.
     let global_wg_size = (num_texels, 1, 1);
         local_wg_size = create_local_wg_size global_wg_size
     in
     throwing (hashed_layout_of graph tensor) graph (\<lambda>layout.
       (None, graph\<lparr>prepack_nodes := prepack_nodes graph @
          [\<lparr>pn_shader = \<lparr>kernel_name = kernel_name, storage_suffix = None, dtype_suffix = None\<rparr>,
            pn_global_wg_size = global_wg_size,
            pn_local_wg_size = local_wg_size,
            pn_tref = tensor_data,
            pn_packed = tensor,
            pn_params = param_buffers,
            pn_spec_vars = [layout]\<rparr>]\<rparr>))))))))"

definition staging_to_int8x4_buffer_global_wg_size ::
  "ComputeGraph \<Rightarrow> ArgGroup list \<Rightarrow> ValueRef list \<Rightarrow> error + uvec3" where
  "staging_to_int8x4_buffer_global_wg_size graph args resize_args =
     and_then (at_vec args 0) (\<lambda>a0.
     and_then (at_vec (refs a0) 0) (\<lambda>out_tensor.
     and_then (padded_numel_of graph out_tensor) (\<lambda>pn.
     and_then (safe_downcast_uint32 (pn div 4)) (\<lambda>num_texels.
       Inr (num_texels, 1, 1)))))"

definition add_staging_to_int8x4_buffer_node ::
  "ComputeGraph \<Rightarrow> ValueRef \<Rightarrow> ValueRef \<Rightarrow> error option \<times> ComputeGraph" where
  "add_staging_to_int8x4_buffer_node graph in_staging tensor =
     throwing (dtype_of graph tensor) graph (\<lambda>dt.
     throwing (VK_CHECK_COND (dt = kInt8x4)) graph (\<lambda>_.
     throwing (dim_of graph tensor) graph (\<lambda>d.
     throwing (VK_CHECK_COND (d \<le> 4)) graph (\<lambda>_.
     let param_buffers = [] @ [buffer_meta_ubo tensor] in
     throwing (hashed_layout_of graph tensor) graph (\<lambda>layout.
       (None, graph\<lparr>execute_nodes := execute_nodes graph @
          [\<lparr>dn_shader = \<lparr>kernel_name = ''nchw_to_int8x4_buffer'', storage_suffix = None,
                          dtype_suffix = None\<rparr>,
            dn_pick_global_wg_fn = staging_to_int8x4_buffer_global_wg_size_fn,
            dn_pick_local_wg_fn = default_pick_local_wg_size,
            dn_args = [\<lparr>refs = [tensor], access = kWrite\<rparr>,
                       \<lparr>refs = [in_staging], access = kRead\<rparr>],
            dn_params = param_buffers,
            dn_push_constants = [],
            dn_spec_vars = [layout],
            dn_resize_args = [],
            dn_resize_fn = None\<rparr>]\<rparr>))))))"

text \<open>
  The host reads \<^verbatim>\<open>numel_of\<close> into an \<^verbatim>\<open>int32_t\<close> (the conversion keeps the low
  32 bits), adds 3 and divides by 4 in that type (the division truncates), and
  downcasts the result to \<^verbatim>\<open>uint32_t\<close>. Where \<^verbatim>\<open>numel + 3\<close> leaves the range of
  \<^verbatim>\<open>int32_t\<close> the C++ is undefined: the model ends there with \<open>SignedOverflow\<close>,
  which stands for no particular behaviour, and nothing is stated about that case.
\<close>

definition int8x4_buffer_to_staging_global_wg_size ::
  "ComputeGraph \<Rightarrow> ArgGroup list \<Rightarrow> ValueRef list \<Rightarrow> error + uvec3" where
  "int8x4_buffer_to_staging_global_wg_size graph args resize_args =
     and_then (at_vec args 1) (\<lambda>a1.
     and_then (at_vec (refs a1) 0) (\<lambda>in_tensor.
     and_then (numel_of graph in_tensor) (\<lambda>n.
     let numel = sint (word_of_int n :: 32 word) in
     if 2 ^ 31 \<le> numel + 3 then Inl SignedOverflow
     else
       and_then (safe_downcast_uint32 ((numel + 3) sdiv 4)) (\<lambda>num_out_int32s.
         Inr (num_out_int32s, 1, 1)))))"

definition add_int8x4_buffer_to_staging_node ::
  "ComputeGraph \<Rightarrow> ValueRef \<Rightarrow> ValueRef \<Rightarrow> error option \<times> ComputeGraph" where
  "add_int8x4_buffer_to_staging_node graph tensor staging_data =
     throwing (dtype_of graph tensor) graph (\<lambda>dt.
     throwing (VK_CHECK_COND (dt = kInt8x4)) graph (\<lambda>_.
     throwing (dim_of graph tensor) graph (\<lambda>d.
     throwing (VK_CHECK_COND (d \<le> 4)) graph (\<lambda>_.
     let param_buffers = [] @ [buffer_meta_ubo tensor] in
     throwing (hashed_layout_of graph tensor) graph (\<lambda>layout.
       (None, graph\<lparr>execute_nodes := execute_nodes graph @
          [\<lparr>dn_shader = \<lparr>kernel_name = ''int8x4_buffer_to_nchw'', storage_suffix = None,
                          dtype_suffix = None\<rparr>,
            dn_pick_global_wg_fn = int8x4_buffer_to_staging_global_wg_size_fn,
            dn_pick_local_wg_fn = default_pick_local_wg_size,
            dn_args = [\<lparr>refs = [staging_data], access = kWrite\<rparr>,
                       \<lparr>refs = [tensor], access = kRead\<rparr>],
            dn_params = param_buffers,
            dn_push_constants = [],
            dn_spec_vars = [layout],
            dn_resize_args = [],
            dn_resize_fn = None\<rparr>]\<rparr>))))))"

subsection \<open>Where.cpp\<close>

definition resize_where_node ::
  "ComputeGraph \<Rightarrow> ArgGroup list \<Rightarrow> ValueRef list \<Rightarrow> error option \<times> ComputeGraph" where
  "resize_where_node graph args extra_args =
     throwing (at_vec args 0) graph (\<lambda>a0.
     throwing (at_vec (refs a0) 0) graph (\<lambda>out.
     throwing (at_vec args 1) graph (\<lambda>a1.
     throwing (at_vec (refs a1) 1) graph (\<lambda>self.
     throwing (sizes_of graph self) graph (\<lambda>self_sizes.
       virtual_resize graph out self_sizes)))))"

definition add_where_node ::
  "ComputeGraph \<Rightarrow> ValueRef \<Rightarrow> ValueRef \<Rightarrow> ValueRef \<Rightarrow> ValueRef \<Rightarrow> error option \<times> ComputeGraph" where
  "add_where_node graph cond self other out =
     throwing (storage_type_of graph out) graph (\<lambda>st.
     throwing (dtype_of graph out) graph (\<lambda>dt.
     let kernel = \<lparr>kernel_name = ''where'', storage_suffix = Some st, dtype_suffix = Some dt\<rparr>;
         ubos = [meta_ubo out, meta_ubo cond, meta_ubo self, meta_ubo other]
     in
       (None, graph\<lparr>execute_nodes := execute_nodes graph @
          [\<lparr>dn_shader = kernel,
            dn_pick_global_wg_fn = default_pick_global_wg_size,
            dn_pick_local_wg_fn = default_pick_local_wg_size,
            dn_args = [\<lparr>refs = [out], access = kWrite\<rparr>,
                       \<lparr>refs = [cond, self, other], access = kRead\<rparr>],
            dn_params = ubos,
            dn_push_constants = [],
            dn_spec_vars = [],
            dn_resize_args = [],
            dn_resize_fn = Some resize_where_node_fn\<rparr>]\<rparr>)))"

definition where_op :: "ComputeGraph \<Rightarrow> ValueRef list \<Rightarrow> error option \<times> ComputeGraph" where
  "where_op graph args =
     (let cond = args ! 0; self = args ! 1; other = args ! 2; out = args ! 3
      in add_where_node graph cond self other out)"

subsection \<open>Example graphs\<close>

definition ex_tensor :: "int list \<Rightarrow> ScalarType \<Rightarrow> nat \<Rightarrow> vTensor" where
  "ex_tensor szs dt cap =
     \<lparr>tensor_sizes = szs, tensor_dtype = dt, tensor_storage_type = kBuffer,
      tensor_packed_dim = 0, tensor_hashed_layout = 0, tensor_capacity = cap,
      tensor_contents = []\<rparr>"

text \<open>
  Values 2 to 5: condition of shape [1], self and other of shape [4], out of shape [2, 2].
\<close>

definition ex_where_graph :: ComputeGraph where
  "ex_where_graph =
     \<lparr>graph_values = [NoneValue, NoneValue,
                      Tensor (ex_tensor [1] kBool 1), Tensor (ex_tensor [4] kInt32 4),
                      Tensor (ex_tensor [4] kInt32 4), Tensor (ex_tensor [2, 2] kInt32 4)],
      prepack_nodes = [], execute_nodes = []\<rparr>"

text \<open>Value 2 is constant data, value 3 a packed int8 tensor of rank 5.\<close>

definition ex_rank5_graph :: ComputeGraph where
  "ex_rank5_graph =
     \<lparr>graph_values = [NoneValue, NoneValue,
                      TensorRef [], Tensor (ex_tensor [1, 2, 3, 4, 5] kInt8x4 120)],
      prepack_nodes = [], execute_nodes = []\<rparr>"

definition ex_where_resized :: ComputeGraph where
  "ex_where_resized =
     ex_where_graph\<lparr>graph_values :=
       (graph_values ex_where_graph)[5 := Tensor (ex_tensor [4] kInt32 4)]\<rparr>"

section \<open>Device side: the GLSL kernels\<close>

text \<open>
  GLSL \<^verbatim>\<open>uint\<close> and \<^verbatim>\<open>int\<close> are 32-bit words; \<open>+\<close>, \<open>-\<close> and \<open>*\<close> wrap. A \<^verbatim>\<open>uint\<close>
  is compared, divided and shifted unsigned (\<open><\<close>, \<open>div\<close>, \<open>mod\<close>, \<open>drop_bit\<close>), an
  \<^verbatim>\<open>int\<close> signed (\<open><s\<close>, \<open>int_div\<close>, \<open>int_mod\<close>, \<open>signed_drop_bit\<close>). The conversions
  \<^verbatim>\<open>int(u)\<close> and \<^verbatim>\<open>uint(i)\<close> keep the bits. The counters of the two bounded loops
  (\<^verbatim>\<open>j < 4\<close>, \<^verbatim>\<open>comp < limit\<close> with \<^verbatim>\<open>limit \<le> 4\<close>) never leave 0..4 and are natural
  numbers.
\<close>

type_synonym glsl_uint = "32 word"
type_synonym glsl_int = "32 word"

definition int_div :: "glsl_int \<Rightarrow> glsl_int \<Rightarrow> glsl_int" where
  "int_div a b = word_of_int (sint a sdiv sint b)"

definition int_mod :: "glsl_int \<Rightarrow> glsl_int \<Rightarrow> glsl_int" where
  "int_mod a b = word_of_int (sint a smod sint b)"

text \<open>GLSL \<^verbatim>\<open>min(x, y)\<close> on \<^verbatim>\<open>int\<close>: \<^verbatim>\<open>y\<close> if \<^verbatim>\<open>y < x\<close>, otherwise \<^verbatim>\<open>x\<close>.\<close>

definition imin :: "glsl_int \<Rightarrow> glsl_int \<Rightarrow> glsl_int" where
  "imin x y = (if y <s x then y else x)"

text \<open>
  Four-component vectors. GLSL leaves a component index above 3 undefined; the model
  reads and writes the last component there, and every property below is about
  indices 0 to 3.
\<close>

datatype 'a vec4 = Vec4 'a 'a 'a 'a

fun vec4_get :: "'a vec4 \<Rightarrow> nat \<Rightarrow> 'a" where
  "vec4_get (Vec4 x y z w) i =
     (if i = 0 then x else if i = 1 then y else if i = 2 then z else w)"

fun vec4_set :: "'a vec4 \<Rightarrow> nat \<Rightarrow> 'a \<Rightarrow> 'a vec4" where
  "vec4_set (Vec4 x y z w) i a =
     (if i = 0 then Vec4 a y z w else if i = 1 then Vec4 x a z w
      else if i = 2 then Vec4 x y a w else Vec4 x y z a)"

fun vec4_map :: "('a \<Rightarrow> 'b) \<Rightarrow> 'a vec4 \<Rightarrow> 'b vec4" where
  "vec4_map f (Vec4 x y z w) = Vec4 (f x) (f y) (f z) (f w)"

fun vec4_map2 :: "('a \<Rightarrow> 'b \<Rightarrow> 'c) \<Rightarrow> 'a vec4 \<Rightarrow> 'b vec4 \<Rightarrow> 'c vec4" where
  "vec4_map2 f (Vec4 x y z w) (Vec4 x' y' z' w') = Vec4 (f x x') (f y y') (f z z') (f w w')"

type_synonym ivec3 = "glsl_int \<times> glsl_int \<times> glsl_int"
type_synonym ivec4 = "glsl_int vec4"
type_synonym uvec4 = "glsl_uint vec4"

subsection \<open>Storage buffers and dispatches\<close>

text \<open>
  A storage buffer a kernel writes is its cells together with the trace of the
  addresses stored to, in the order of the stores. A store outside the buffer changes
  no cell.
\<close>

record 'a buffer =
  cells :: "'a list"
  writes :: "nat list"

definition buffer_store :: "'a buffer \<Rightarrow> nat \<Rightarrow> 'a \<Rightarrow> 'a buffer" where
  "buffer_store b a v = \<lparr>cells = (cells b)[a := v], writes = writes b @ [a]\<rparr>"

text \<open>
  A dispatch runs the kernel once for each global invocation id of its grid. The ids are
  given as the list \<open>gids\<close>, in the order in which the invocations happen to run.
  \<open>grid_x n\<close> is the grid \<^verbatim>\<open>{n, 1, 1}\<close> in ascending order; the kernels here read only
  \<^verbatim>\<open>gl_GlobalInvocationID.x\<close> and are dispatched on such grids.
\<close>

definition dispatch :: "('g \<Rightarrow> 's \<Rightarrow> 's) \<Rightarrow> 'g list \<Rightarrow> 's \<Rightarrow> 's" where
  "dispatch shader_main gids s = fold shader_main gids s"

definition grid_x :: "nat \<Rightarrow> glsl_uint list" where
  "grid_x n = map of_nat [0..<n]"

subsection \<open>Buffer indexing\<close>

text \<open>
  Modelled from the spec: the include file \<^verbatim>\<open>indexing.glslh\<close> with \<^verbatim>\<open>BufferMetadata\<close>,
  \<^verbatim>\<open>TensorIndex\<close>, \<^verbatim>\<open>out_of_bounds\<close>, \<^verbatim>\<open>linear_idx_to_tensor_idx\<close>,
  \<^verbatim>\<open>clamp_tensor_idx\<close> and \<^verbatim>\<open>tensor_idx_to_linear_idx\<close> is not in the sources at hand.
  The metadata holds sizes and strides, four dimensions to a vector, innermost (width)
  first, as \<^verbatim>\<open>inp.sizes[0][0]\<close> to \<^verbatim>\<open>inp.sizes[0][3]\<close> (W, H, C, N) in the unpack
  kernel show. The spec gives: a linear index is out of bounds when it is not below the
  element count; \<^verbatim>\<open>tensor_idx_to_linear_idx\<close> is the forward (strided) flattening and
  \<^verbatim>\<open>linear_idx_to_tensor_idx\<close> its inverse; \<^verbatim>\<open>clamp_tensor_idx\<close> clamps each
  dimension of the index to \<^verbatim>\<open>min(idx[d], size[d]-1)\<close>.
\<close>

record BufferMetadata =
  sizes :: "uvec4 list"
  strides :: "uvec4 list"
  ndim :: glsl_uint
  numel :: glsl_uint

type_synonym TensorIndex = "uvec4 list"

definition size_at :: "BufferMetadata \<Rightarrow> nat \<Rightarrow> glsl_uint" where
  "size_at meta d = vec4_get (sizes meta ! (d div 4)) (d mod 4)"

definition stride_at :: "BufferMetadata \<Rightarrow> nat \<Rightarrow> glsl_uint" where
  "stride_at meta d = vec4_get (strides meta ! (d div 4)) (d mod 4)"

definition idx_at :: "TensorIndex \<Rightarrow> nat \<Rightarrow> glsl_uint" where
  "idx_at tidx d = vec4_get (tidx ! (d div 4)) (d mod 4)"

definition out_of_bounds :: "glsl_uint \<Rightarrow> BufferMetadata \<Rightarrow> bool" where
  "out_of_bounds bufi meta = (numel meta \<le> bufi)"

definition linear_idx_to_tensor_idx :: "BufferMetadata \<Rightarrow> glsl_uint \<Rightarrow> TensorIndex" where
  "linear_idx_to_tensor_idx meta linear_idx =
     map2 (vec4_map2 (\<lambda>stride size. (linear_idx div stride) mod size))
       (strides meta) (sizes meta)"

definition clamp_tensor_idx :: "BufferMetadata \<Rightarrow> TensorIndex \<Rightarrow> TensorIndex" where
  "clamp_tensor_idx meta tidx =
     map2 (vec4_map2 (\<lambda>i size. min i (size - 1))) tidx (sizes meta)"

definition tensor_idx_to_linear_idx :: "BufferMetadata \<Rightarrow> TensorIndex \<Rightarrow> glsl_uint" where
  "tensor_idx_to_linear_idx meta tidx =
     sum_list (map (\<lambda>d. idx_at tidx d * stride_at meta d) [0..<unat (ndim meta)])"

subsection \<open>The where kernel, buffer variant\<close>

text \<open>
  \<^verbatim>\<open>COND_T\<close> is the buffer scalar type of \<^verbatim>\<open>bool\<close>, an unsigned 8-bit integer (the
  texture variant reads the condition as \<^verbatim>\<open>uint\<close>); \<^verbatim>\<open>T\<close> is any element type.
\<close>

definition where_buffer_main ::
  "BufferMetadata \<Rightarrow> BufferMetadata \<Rightarrow> BufferMetadata \<Rightarrow> BufferMetadata \<Rightarrow>
   8 word list \<Rightarrow> 'a list \<Rightarrow> 'a list \<Rightarrow> glsl_uint \<Rightarrow> 'a buffer \<Rightarrow> 'a buffer" where
  "where_buffer_main outp condp selfp otherp t_condition t_self t_other gid_x t_out =
     (let out_bufi = gid_x in
      if out_of_bounds out_bufi outp then t_out
      else
        let out_tidx = linear_idx_to_tensor_idx outp out_bufi;
            cond_tidx = clamp_tensor_idx condp out_tidx;
            self_tidx = clamp_tensor_idx selfp out_tidx;
            other_tidx = clamp_tensor_idx otherp out_tidx;
            cond_bufi = tensor_idx_to_linear_idx condp cond_tidx;
            self_bufi = tensor_idx_to_linear_idx selfp self_tidx;
            other_bufi = tensor_idx_to_linear_idx otherp other_tidx;
            cond = t_condition ! unat cond_bufi;
            v_self = t_self ! unat self_bufi;
            v_other = t_other ! unat other_bufi
        in if 0 < cond then buffer_store t_out (unat out_bufi) v_self
           else buffer_store t_out (unat out_bufi) v_other)"

subsection \<open>The where kernel, texture variant\<close>

text \<open>
  \<^verbatim>\<open>TextureMetadata\<close> and the three functions the texture variant takes from
  \<^verbatim>\<open>indexing.glslh\<close> are not in the sources at hand. The kernel reads the fields
  \<^verbatim>\<open>sizes\<close> and \<^verbatim>\<open>packed_dim\<close>; the functions are parameters of the kernel's model,
  collected in \<open>indexing_glslh\<close>.
\<close>

record TextureMetadata =
  sizes_t :: ivec4
  limits :: ivec3
  axis_map :: ivec4
  packed_dim :: glsl_int

record TextureElementIndex =
  pos :: ivec3
  comp :: glsl_int

record indexing_glslh =
  out_of_bounds_t :: "ivec3 \<Rightarrow> TextureMetadata \<Rightarrow> bool"
  texture_pos_to_tensor4d_idx_simple :: "TextureMetadata \<Rightarrow> ivec3 \<Rightarrow> ivec4"
  tensor4d_idx_to_texture_element_idx_simple :: "TextureMetadata \<Rightarrow> ivec4 \<Rightarrow> TextureElementIndex"

type_synonym 'a image = "ivec3 \<Rightarrow> 'a vec4"

definition texelFetch :: "'a image \<Rightarrow> ivec3 \<Rightarrow> 'a vec4" where
  "texelFetch t p = t p"

definition imageStore :: "'a image \<Rightarrow> ivec3 \<Rightarrow> 'a vec4 \<Rightarrow> 'a image" where
  "imageStore t p texel = t(p := texel)"

text \<open>
  The broadcast clamp of the texture variant, \<^verbatim>\<open>min(out_tidx.data, meta.sizes - 1)\<close>,
  componentwise on \<^verbatim>\<open>ivec4\<close>.
\<close>

definition clamp_tensor4d_idx :: "TextureMetadata \<Rightarrow> ivec4 \<Rightarrow> ivec4" where
  "clamp_tensor4d_idx meta data = vec4_map2 imin data (vec4_map (\<lambda>s. s - 1) (sizes_t meta))"

text \<open>The body of the loop up to the assignment: the value stored in \<^verbatim>\<open>outtex[comp]\<close>.\<close>

definition where_texture_comp ::
  "indexing_glslh \<Rightarrow> TextureMetadata \<Rightarrow> TextureMetadata \<Rightarrow> TextureMetadata \<Rightarrow>
   glsl_uint image \<Rightarrow> 'a image \<Rightarrow> 'a image \<Rightarrow> ivec4 \<Rightarrow> 'a" where
  "where_texture_comp ix condp selfp otherp t_condition t_self t_other out_tidx =
     (let cond_tidx = clamp_tensor4d_idx condp out_tidx;
          cond_elem = tensor4d_idx_to_texture_element_idx_simple ix condp cond_tidx;
          cond_val = vec4_get (texelFetch t_condition (pos cond_elem)) (unat (comp cond_elem));
          self_tidx = clamp_tensor4d_idx selfp out_tidx;
          self_elem = tensor4d_idx_to_texture_element_idx_simple ix selfp self_tidx;
          self_texel = texelFetch t_self (pos self_elem);
          other_tidx = clamp_tensor4d_idx otherp out_tidx;
          other_elem = tensor4d_idx_to_texture_element_idx_simple ix otherp other_tidx;
          other_texel = texelFetch t_other (pos other_elem)
      in if 0 < cond_val then vec4_get self_texel (unat (comp self_elem))
         else vec4_get other_texel (unat (comp other_elem)))"

function where_texture_loop ::
  "(ivec4 \<Rightarrow> 'a) \<Rightarrow> nat \<Rightarrow> nat \<Rightarrow> glsl_int \<Rightarrow> ivec4 \<Rightarrow> 'a vec4 \<Rightarrow> 'a vec4" where
  "where_texture_loop body pd c limit out_tidx outtex =
     (if int c < sint limit
      then where_texture_loop body pd (c + 1) limit
             (vec4_set out_tidx pd (vec4_get out_tidx pd + 1))
             (vec4_set outtex c (body out_tidx))
      else outtex)"
  by pat_completeness auto
termination
  by (relation "measure (\<lambda>(body, pd, c, limit, out_tidx, outtex). nat (sint limit) - c)") auto

declare where_texture_loop.simps [simp del]

definition where_texture_limit :: "TextureMetadata \<Rightarrow> ivec4 \<Rightarrow> glsl_int" where
  "where_texture_limit outp out_tidx =
     imin 4 (vec4_get (sizes_t outp) (unat (packed_dim outp))
              - vec4_get out_tidx (unat (packed_dim outp)))"

definition where_texture_main ::
  "indexing_glslh \<Rightarrow> TextureMetadata \<Rightarrow> TextureMetadata \<Rightarrow> TextureMetadata \<Rightarrow> TextureMetadata \<Rightarrow>
   glsl_uint image \<Rightarrow> ('a::zero) image \<Rightarrow> 'a image \<Rightarrow> ivec3 \<Rightarrow> 'a image \<Rightarrow> 'a image" where
  "where_texture_main ix outp condp selfp otherp t_condition t_self t_other gid t_out =
     (let out_pos = gid in
      if out_of_bounds_t ix out_pos outp then t_out
      else
        let out_tidx = texture_pos_to_tensor4d_idx_simple ix outp out_pos;
            outtex = Vec4 0 0 0 0;
            limit = where_texture_limit outp out_tidx
        in imageStore t_out out_pos
             (where_texture_loop
                (where_texture_comp ix condp selfp otherp t_condition t_self t_other)
                (unat (packed_dim outp)) 0 limit out_tidx outtex))"

subsection \<open>The int8x4 staging kernels\<close>

text \<open>
  \<^verbatim>\<open>tensor4d_idx_to_buf_idx\<close> comes from \<^verbatim>\<open>indexing.glslh\<close>, which is not in the
  sources at hand. It is the first parameter of the kernels' models: a function of the
  metadata, the WHCN coordinate and the layout constant to the element index in the
  packed buffer.
\<close>

type_synonym buf_idx_fn = "BufferMetadata \<Rightarrow> ivec4 \<Rightarrow> glsl_int \<Rightarrow> glsl_int"

text \<open>The conversion of an NCHW linear index to WHCN coordinates in the unpack kernel.\<close>

definition nchw_idx_to_tensor4d ::
  "glsl_uint \<Rightarrow> glsl_uint \<Rightarrow> glsl_uint \<Rightarrow> glsl_uint \<Rightarrow> ivec4" where
  "nchw_idx_to_tensor4d W H C nchw_idx =
     (let w = nchw_idx mod W;
          h = (nchw_idx div W) mod H;
          c = (nchw_idx div (W * H)) mod C;
          n = nchw_idx div (W * H * C)
      in Vec4 w h c n)"

text \<open>The body of the unpack loop after the break test: the value \<^verbatim>\<open>int8_val\<close>.\<close>

definition int8x4_fetch ::
  "buf_idx_fn \<Rightarrow> BufferMetadata \<Rightarrow> glsl_int \<Rightarrow> glsl_int list \<Rightarrow>
   glsl_uint \<Rightarrow> glsl_uint \<Rightarrow> glsl_uint \<Rightarrow> glsl_uint \<Rightarrow> glsl_int" where
  "int8x4_fetch tensor4d_idx_to_buf_idx inp inp_layout t_inp W H C nchw_idx =
     (let tidx = nchw_idx_to_tensor4d W H C nchw_idx;
          elem_buf_idx = tensor4d_idx_to_buf_idx inp tidx inp_layout
      in signed_drop_bit (nat (sint (int_mod elem_buf_idx 4 * 8)))
           (t_inp ! nat (sint (int_div elem_buf_idx 4))) AND 0xFF)"

function int8x4_buffer_to_nchw_loop ::
  "(glsl_uint \<Rightarrow> glsl_int) \<Rightarrow> glsl_uint \<Rightarrow> glsl_uint \<Rightarrow> nat \<Rightarrow> glsl_int \<Rightarrow> glsl_int" where
  "int8x4_buffer_to_nchw_loop fetch out_int32_idx total_numel j output_int32 =
     (if j < 4 then
        (let nchw_idx = out_int32_idx * 4 + of_nat j in
         if total_numel \<le> nchw_idx then output_int32
         else int8x4_buffer_to_nchw_loop fetch out_int32_idx total_numel (j + 1)
                (output_int32 OR push_bit (j * 8) (fetch nchw_idx)))
      else output_int32)"
  by pat_completeness auto
termination
  by (relation "measure (\<lambda>(fetch, out_int32_idx, total_numel, j, output_int32). 4 - j)") auto

declare int8x4_buffer_to_nchw_loop.simps [simp del]

definition int8x4_buffer_to_nchw_main ::
  "buf_idx_fn \<Rightarrow> BufferMetadata \<Rightarrow> glsl_int \<Rightarrow> glsl_int list \<Rightarrow>
   glsl_uint \<Rightarrow> glsl_int buffer \<Rightarrow> glsl_int buffer" where
  "int8x4_buffer_to_nchw_main tensor4d_idx_to_buf_idx inp inp_layout t_inp gid_x nchw_out =
     (let out_int32_idx = gid_x;
          W = vec4_get (sizes inp ! 0) 0;
          H = vec4_get (sizes inp ! 0) 1;
          C = vec4_get (sizes inp ! 0) 2;
          N = vec4_get (sizes inp ! 0) 3;
          total_numel = W * H * C * N;
          num_out_int32s = (total_numel + 3) div 4
      in if num_out_int32s \<le> out_int32_idx then nchw_out
         else buffer_store nchw_out (unat out_int32_idx)
                (int8x4_buffer_to_nchw_loop
                   (int8x4_fetch tensor4d_idx_to_buf_idx inp inp_layout t_inp W H C)
                   out_int32_idx total_numel 0 0))"

definition int8x4_buffer_to_nchw ::
  "buf_idx_fn \<Rightarrow> BufferMetadata \<Rightarrow> glsl_int \<Rightarrow> glsl_uint list \<Rightarrow>
   glsl_int list \<Rightarrow> glsl_int buffer \<Rightarrow> glsl_int buffer" where
  "int8x4_buffer_to_nchw tensor4d_idx_to_buf_idx inp inp_layout gids t_inp nchw_out =
     dispatch (int8x4_buffer_to_nchw_main tensor4d_idx_to_buf_idx inp inp_layout t_inp)
       gids nchw_out"

text \<open>
  The staging buffer holds the NCHW bytes four to an \<^verbatim>\<open>int32\<close>, the first in the low
  byte: byte \<open>i\<close> of the staging contents.
\<close>

definition staging_byte :: "glsl_int list \<Rightarrow> nat \<Rightarrow> glsl_int" where
  "staging_byte nchw i = drop_bit (8 * (i mod 4)) (nchw ! (i div 4)) AND 0xFF"

text \<open>
  Modelled from the spec: the shader \<^verbatim>\<open>nchw_to_int8x4_buffer\<close> is not in the sources at
  hand. The spec gives the upload direction as: for every output packed slot, determine
  which 4 logical NCHW elements map into it via the forward index functions, extract
  each element's value, and bit-pack \<^verbatim>\<open>slot = \<Sigma> byte_j << (8*j)\<close>; unused lanes are
  zero-filled; out-of-bounds invocations return at the kernel's entry.

  The staging buffer is in NCHW order: the element at coordinate \<open>(w, h, c, n)\<close> is
  byte \<open>((n * C + c) * H + h) * W + w\<close> of it (\<open>nchw_pos\<close>). The logical elements
  are the coordinates inside the sizes (\<open>whcn_coords\<close>). \<open>nchw_to_int8x4_lane\<close> is
  the byte of packed element \<open>e\<close>: the staging byte of the logical element whose
  forward index is \<open>e\<close>, and zero when there is none. The four shifted bytes of a slot
  do not overlap, so their sum is their bitwise or. The bound of the entry check is the
  number of slots of the packed buffer, \<open>num_texels\<close>.
\<close>

definition nchw_pos :: "glsl_uint \<Rightarrow> glsl_uint \<Rightarrow> glsl_uint \<Rightarrow> ivec4 \<Rightarrow> nat" where
  "nchw_pos W H C tidx =
     ((unat (vec4_get tidx 3) * unat C + unat (vec4_get tidx 2)) * unat H
        + unat (vec4_get tidx 1)) * unat W
     + unat (vec4_get tidx 0)"

definition whcn_coords ::
  "glsl_uint \<Rightarrow> glsl_uint \<Rightarrow> glsl_uint \<Rightarrow> glsl_uint \<Rightarrow> ivec4 list" where
  "whcn_coords W H C N =
     concat (map (\<lambda>n. concat (map (\<lambda>c. concat (map (\<lambda>h.
       map (\<lambda>w. Vec4 (of_nat w) (of_nat h) (of_nat c) (of_nat n)) [0..<unat W])
       [0..<unat H])) [0..<unat C])) [0..<unat N])"

definition nchw_to_int8x4_lane ::
  "buf_idx_fn \<Rightarrow> BufferMetadata \<Rightarrow> glsl_int \<Rightarrow> glsl_int list \<Rightarrow> glsl_int \<Rightarrow> glsl_int" where
  "nchw_to_int8x4_lane tensor4d_idx_to_buf_idx outp outp_layout nchw_in e =
     (let W = vec4_get (sizes outp ! 0) 0;
          H = vec4_get (sizes outp ! 0) 1;
          C = vec4_get (sizes outp ! 0) 2;
          N = vec4_get (sizes outp ! 0) 3
      in case find (\<lambda>tidx. tensor4d_idx_to_buf_idx outp tidx outp_layout = e)
                (whcn_coords W H C N) of
           None \<Rightarrow> 0
         | Some tidx \<Rightarrow> staging_byte nchw_in (nchw_pos W H C tidx))"

definition nchw_to_int8x4_buffer_main ::
  "buf_idx_fn \<Rightarrow> BufferMetadata \<Rightarrow> glsl_int \<Rightarrow> glsl_uint \<Rightarrow> glsl_int list \<Rightarrow>
   glsl_uint \<Rightarrow> glsl_int buffer \<Rightarrow> glsl_int buffer" where
  "nchw_to_int8x4_buffer_main tensor4d_idx_to_buf_idx outp outp_layout num_texels nchw_in
       gid_x t_outp =
     (let texel_idx = gid_x;
          lane = nchw_to_int8x4_lane tensor4d_idx_to_buf_idx outp outp_layout nchw_in
      in if num_texels \<le> texel_idx then t_outp
         else buffer_store t_outp (unat texel_idx)
                (lane (texel_idx * 4)
                 OR push_bit 8 (lane (texel_idx * 4 + 1))
                 OR push_bit 16 (lane (texel_idx * 4 + 2))
                 OR push_bit 24 (lane (texel_idx * 4 + 3))))"

definition nchw_to_int8x4_buffer ::
  "buf_idx_fn \<Rightarrow> BufferMetadata \<Rightarrow> glsl_int \<Rightarrow> glsl_uint \<Rightarrow> glsl_uint list \<Rightarrow>
   glsl_int list \<Rightarrow> glsl_int buffer \<Rightarrow> glsl_int buffer" where
  "nchw_to_int8x4_buffer tensor4d_idx_to_buf_idx outp outp_layout num_texels gids nchw_in t_outp =
     dispatch
       (nchw_to_int8x4_buffer_main tensor4d_idx_to_buf_idx outp outp_layout num_texels nchw_in)
       gids t_outp"

text \<open>
  What the round trip needs of the index function on a tensor of these sizes and a
  packed buffer of \<open>num_texels\<close> slots: the coordinates inside the sizes have distinct,
  non-negative element indices, all inside the buffer.
\<close>

definition buf_idx_ok :: "buf_idx_fn \<Rightarrow> BufferMetadata \<Rightarrow> glsl_int \<Rightarrow> glsl_uint \<Rightarrow> bool" where
  "buf_idx_ok tensor4d_idx_to_buf_idx meta layout num_texels =
     (let W = vec4_get (sizes meta ! 0) 0;
          H = vec4_get (sizes meta ! 0) 1;
          C = vec4_get (sizes meta ! 0) 2;
          N = vec4_get (sizes meta ! 0) 3;
          es = map (\<lambda>tidx. tensor4d_idx_to_buf_idx meta tidx layout) (whcn_coords W H C N)
      in distinct es
         \<and> list_all (\<lambda>e. 0 \<le>s e \<and> nat (sint e) div 4 < unat num_texels) es)"

text \<open>The element count of the metadata's first four sizes, without wrap-around.\<close>

definition whcn_numel :: "BufferMetadata \<Rightarrow> nat" where
  "whcn_numel meta =
     unat (vec4_get (sizes meta ! 0) 0) * unat (vec4_get (sizes meta ! 0) 1)
     * unat (vec4_get (sizes meta ! 0) 2) * unat (vec4_get (sizes meta ! 0) 3)"

subsection \<open>The spec's reading of the where operator\<close>

text \<open>
  The element of an operand at the broadcast-clamped coordinate, and the value the spec
  gives output element \<open>i\<close>: the self value when the condition there is non-zero,
  else the other value.
\<close>

definition operand_at :: "BufferMetadata \<Rightarrow> 'a list \<Rightarrow> TensorIndex \<Rightarrow> 'a" where
  "operand_at meta t tidx =
     t ! unat (tensor_idx_to_linear_idx meta (clamp_tensor_idx meta tidx))"

definition where_select ::
  "BufferMetadata \<Rightarrow> BufferMetadata \<Rightarrow> BufferMetadata \<Rightarrow> BufferMetadata \<Rightarrow>
   8 word list \<Rightarrow> 'a list \<Rightarrow> 'a list \<Rightarrow> glsl_uint \<Rightarrow> 'a" where
  "where_select outp condp selfp otherp t_condition t_self t_other i =
     (let out_tidx = linear_idx_to_tensor_idx outp i
      in if operand_at condp t_condition out_tidx \<noteq> 0
         then operand_at selfp t_self out_tidx
         else operand_at otherp t_other out_tidx)"

subsection \<open>Bytes and counts used in the statements\<close>

text \<open>Byte \<open>j\<close> of a 32-bit word, the low byte being byte 0.\<close>

definition byte_of :: "32 word \<Rightarrow> nat \<Rightarrow> 32 word" where
  "byte_of w j = drop_bit (8 * j) w AND 0xFF"

text \<open>
  The number of staging words the unpack kernel writes: its \<^verbatim>\<open>num_out_int32s\<close>, as a
  function of the metadata.
\<close>

definition num_out_int32s :: "BufferMetadata \<Rightarrow> glsl_uint" where
  "num_out_int32s inp =
     (vec4_get (sizes inp ! 0) 0 * vec4_get (sizes inp ! 0) 1
      * vec4_get (sizes inp ! 0) 2 * vec4_get (sizes inp ! 0) 3 + 3) div 4"

subsection \<open>Example tensors\<close>

text \<open>Metadata of a contiguous one-dimensional tensor of \<open>n\<close> elements.\<close>

definition ex_meta_1d :: "glsl_uint \<Rightarrow> BufferMetadata" where
  "ex_meta_1d n =
     \<lparr>sizes = [Vec4 n 1 1 1, Vec4 1 1 1 1], strides = [Vec4 1 n n n, Vec4 n n n n],
      ndim = 1, numel = n\<rparr>"

text \<open>
  A width-packed index function for the examples: rows are padded to a multiple of four
  elements, so a tensor of width 5 has three padding lanes at the end of each row.
\<close>

definition ex_padded_w_buf_idx :: buf_idx_fn where
  "ex_padded_w_buf_idx meta tidx layout =
     (let W = vec4_get (sizes meta ! 0) 0;
          H = vec4_get (sizes meta ! 0) 1;
          C = vec4_get (sizes meta ! 0) 2;
          padded_W = ((W + 3) div 4) * 4
      in vec4_get tidx 0
         + padded_W * (vec4_get tidx 1 + H * (vec4_get tidx 2 + C * vec4_get tidx 3)))"

definition ex_meta_whcn :: "glsl_uint \<Rightarrow> glsl_uint \<Rightarrow> glsl_uint \<Rightarrow> glsl_uint \<Rightarrow> BufferMetadata" where
  "ex_meta_whcn W H C N =
     \<lparr>sizes = [Vec4 W H C N, Vec4 1 1 1 1],
      strides = [Vec4 1 W (W * H) (W * H * C), Vec4 (W * H * C * N) (W * H * C * N)
                   (W * H * C * N) (W * H * C * N)],
      ndim = 4, numel = W * H * C * N\<rparr>"

text \<open>
  The NCHW bytes 1 to 54 of a tensor of width 3, height 3, 2 channels and batch 3, in
  fourteen staging words; the two bytes after the last element are arbitrary.
\<close>

definition ex_nchw_in :: "glsl_int list" where
  "ex_nchw_in =
     [0x04030201, 0x08070605, 0x0C0B0A09, 0x100F0E0D, 0x14131211, 0x18171615, 0x1C1B1A19,
      0x201F1E1D, 0x24232221, 0x28272625, 0x2C2B2A29, 0x302F2E2D, 0x34333231, 0xEEEE3635]"

definition ex_empty_buffer :: "nat \<Rightarrow> glsl_int buffer" where
  "ex_empty_buffer n = \<lparr>cells = replicate n 0, writes = []\<rparr>"

text \<open>
  Texture indexing for the examples: width-packed tensors, texel \<open>(x, y, z)\<close> holding
  the four elements of row \<open>y\<close>, channel \<open>z\<close> from width \<open>4x\<close> on.
\<close>

definition ex_indexing :: indexing_glslh where
  "ex_indexing =
     \<lparr>out_of_bounds_t = (\<lambda>(x, y, z) meta.
          (case limits meta of (lx, ly, lz) \<Rightarrow> lx \<le>s x \<or> ly \<le>s y \<or> lz \<le>s z)),
      texture_pos_to_tensor4d_idx_simple = (\<lambda>meta (x, y, z). Vec4 (x * 4) y z 0),
      tensor4d_idx_to_texture_element_idx_simple = (\<lambda>meta tidx.
          \<lparr>pos = (int_div (vec4_get tidx 0) 4, vec4_get tidx 1, vec4_get tidx 2),
           comp = int_mod (vec4_get tidx 0) 4\<rparr>)\<rparr>"

definition ex_tex_meta :: "glsl_int \<Rightarrow> TextureMetadata" where
  "ex_tex_meta W =
     \<lparr>sizes_t = Vec4 W 1 1 1, limits = (int_div (W + 3) 4, 1, 1),
      axis_map = Vec4 0 1 2 2, packed_dim = 0\<rparr>"

text \<open>The image of a one-dimensional tensor given by its elements, padded with \<open>d\<close>.\<close>

definition ex_image :: "'a list \<Rightarrow> 'a \<Rightarrow> 'a image" where
  "ex_image xs d =
     (\<lambda>(x, y, z).
        let at = (\<lambda>i. if i < length xs then xs ! i else d); k = 4 * unat x
        in Vec4 (at k) (at (k + 1)) (at (k + 2)) (at (k + 3)))"

text \<open>
  A where example on textures: out, self and other of width 6, a condition of width 1
  with the value 2, and two different prior contents of the output image.
\<close>

definition ex_t_condition :: "glsl_uint image" where
  "ex_t_condition = ex_image [2] 0"

definition ex_t_self :: "glsl_int image" where
  "ex_t_self = ex_image [11, 12, 13, 14, 15, 16] 99"

definition ex_t_other :: "glsl_int image" where
  "ex_t_other = ex_image [21, 22, 23, 24, 25, 26] 99"

definition ex_t_out :: "glsl_int image" where
  "ex_t_out = ex_image [] 55"

definition ex_t_out' :: "glsl_int image" where
  "ex_t_out' = ex_image [] 77"

text \<open>
  A second where example on textures: a condition of width 6 that alternates, and an
  other operand of width 1 that is broadcast.
\<close>

definition ex_t_condition6 :: "glsl_uint image" where
  "ex_t_condition6 = ex_image [1, 0, 1, 0, 1, 0] 0"

definition ex_t_other1 :: "glsl_int image" where
  "ex_t_other1 = ex_image [21] 99"

section \<open>Properties of the host side\<close>

lemma throwing_Inr: "throwing (Inr x) graph k = k x"
  by (simp add: throwing_def)

lemma add_where_node_appends:
  assumes "add_where_node graph0 cond self other out = (None, graph1)"
  shows "dn_args (last (execute_nodes graph1)) =
           [\<lparr>refs = [out], access = kWrite\<rparr>, \<lparr>refs = [cond, self, other], access = kRead\<rparr>]"
    and "dn_resize_args (last (execute_nodes graph1)) = []"
    and "dn_resize_fn (last (execute_nodes graph1)) = Some resize_where_node_fn"
  using assms
  by (auto simp: add_where_node_def throwing_def Let_def split: sum.splits)

lemma resize_where_node_builder_args:
  "resize_where_node graph
     [\<lparr>refs = [out], access = kWrite\<rparr>, \<lparr>refs = [cond, self, other], access = kRead\<rparr>] extra =
   throwing (sizes_of graph self) graph (\<lambda>self_sizes. virtual_resize graph out self_sizes)"
  by (simp add: resize_where_node_def at_vec_def throwing_Inr)

lemma get_tensor_update_same:
  "get_tensor graph idx = Inr t \<Longrightarrow>
   get_tensor (graph\<lparr>graph_values := (graph_values graph)[idx := Tensor t']\<rparr>) idx = Inr t'"
  by (auto simp: get_tensor_def split: if_splits)

lemma get_tensor_update_other:
  "v \<noteq> idx \<Longrightarrow>
   get_tensor (graph\<lparr>graph_values := (graph_values graph)[idx := x]\<rparr>) v = get_tensor graph v"
  by (auto simp: get_tensor_def)

lemma resize_where_node_result:
  assumes "throwing (sizes_of graph self) graph (\<lambda>self_sizes. virtual_resize graph out self_sizes)
             = (st, graph')"
  shows "graph' = graph \<or>
     (\<exists>ts to. get_tensor graph self = Inr ts \<and> get_tensor graph out = Inr to \<and>
        graph' = graph\<lparr>graph_values :=
                   (graph_values graph)[out := Tensor (to\<lparr>tensor_sizes := tensor_sizes ts\<rparr>)]\<rparr>)"
proof (cases "get_tensor graph self")
  case (Inl e)
  then show ?thesis using assms by (simp add: throwing_def sizes_of_def)
next
  case ts: (Inr ts)
  show ?thesis
  proof (cases "get_tensor graph out")
    case (Inl e)
    then show ?thesis using assms ts by (simp add: throwing_def sizes_of_def virtual_resize_def)
  next
    case (Inr to)
    then show ?thesis using assms ts
      by (auto simp: throwing_def sizes_of_def virtual_resize_def split: if_splits)
  qed
qed

lemma ex_where_graph_built:
  "add_where_node ex_where_graph 2 3 4 5 = (None, snd (add_where_node ex_where_graph 2 3 4 5))"
  by (simp add: add_where_node_def ex_where_graph_def ex_tensor_def storage_type_of_def
      dtype_of_def get_tensor_def throwing_def)

lemma ex_where_graph_tensors:
  "get_tensor ex_where_graph 2 = Inr (ex_tensor [1] kBool 1)"
  "get_tensor ex_where_graph 3 = Inr (ex_tensor [4] kInt32 4)"
  "get_tensor ex_where_graph 4 = Inr (ex_tensor [4] kInt32 4)"
  "get_tensor ex_where_graph 5 = Inr (ex_tensor [2, 2] kInt32 4)"
  by (simp_all add: ex_where_graph_def get_tensor_def)

text \<open>
  C4. The where node is built by \<open>add_where_node\<close>; its resize callback runs on the
  arguments stored in the node, on a graph in which self and out are tensors. Whenever
  the callback returns normally, the sizes of out are the current sizes of self,
  whatever the sizes of out were before, and the sizes of self are what they were; the
  sizes of condition and other play no part. The callback does return normally when the
  capacity of out suffices for the sizes of self.
\<close>

theorem resize_where_node_shape:
  assumes built: "add_where_node graph0 cond self other out = (None, graph1)"
    and self_t: "get_tensor graph self = Inr ts"
    and out_t: "get_tensor graph out = Inr to"
    and run: "resize_where_node graph (dn_args (last (execute_nodes graph1)))
                (dn_resize_args (last (execute_nodes graph1))) = (st, graph')"
  shows "(numel_sizes (tensor_sizes ts) \<le> int (tensor_capacity to) \<longrightarrow> st = None)
       \<and> (st = None \<longrightarrow>
            sizes_of graph' out = Inr (tensor_sizes ts)
            \<and> sizes_of graph' self = Inr (tensor_sizes ts))"
proof -
  let ?g = "graph\<lparr>graph_values :=
              (graph_values graph)[out := Tensor (to\<lparr>tensor_sizes := tensor_sizes ts\<rparr>)]\<rparr>"
  have r: "(st, graph') =
             (if numel_sizes (tensor_sizes ts) \<le> int (tensor_capacity to)
              then (None, ?g) else (Some CheckFailed, graph))"
    using run self_t out_t
    by (simp add: add_where_node_appends[OF built] resize_where_node_builder_args
        sizes_of_def throwing_Inr virtual_resize_def)
  have o: "sizes_of ?g out = Inr (tensor_sizes ts)"
    by (simp add: sizes_of_def get_tensor_update_same[OF out_t])
  have s: "sizes_of ?g self = Inr (tensor_sizes ts)"
  proof (cases "self = out")
    case True
    then show ?thesis using o by simp
  next
    case False
    then show ?thesis
      by (simp add: sizes_of_def get_tensor_update_other self_t)
  qed
  show ?thesis
  proof (cases "numel_sizes (tensor_sizes ts) \<le> int (tensor_capacity to)")
    case True
    then have "st = None" "graph' = ?g" using r by simp_all
    then show ?thesis using o s by simp
  next
    case False
    then have "st = Some CheckFailed" using r by simp
    then show ?thesis using False by simp
  qed
qed

theorem resize_where_node_shape_witness:
  "add_where_node ex_where_graph 2 3 4 5 = (None, snd (add_where_node ex_where_graph 2 3 4 5))
   \<and> resize_where_node ex_where_graph
         (dn_args (last (execute_nodes (snd (add_where_node ex_where_graph 2 3 4 5)))))
         (dn_resize_args (last (execute_nodes (snd (add_where_node ex_where_graph 2 3 4 5)))))
       = (None, ex_where_resized)
   \<and> sizes_of ex_where_graph 5 = Inr [2, 2]
   \<and> sizes_of ex_where_graph 3 = Inr [4]
   \<and> sizes_of ex_where_resized 5 = Inr [4]
   \<and> sizes_of ex_where_resized 3 = Inr [4]"
proof -
  have run: "resize_where_node ex_where_graph
       (dn_args (last (execute_nodes (snd (add_where_node ex_where_graph 2 3 4 5)))))
       (dn_resize_args (last (execute_nodes (snd (add_where_node ex_where_graph 2 3 4 5)))))
     = (None, ex_where_resized)"
    unfolding ex_where_resized_def
    by (simp add: add_where_node_appends[OF ex_where_graph_built] resize_where_node_builder_args
        sizes_of_def ex_where_graph_tensors throwing_Inr virtual_resize_def numel_sizes_def
        ex_tensor_def)
  have before: "sizes_of ex_where_graph 5 = Inr [2, 2]" "sizes_of ex_where_graph 3 = Inr [4]"
    by (simp_all add: sizes_of_def ex_where_graph_tensors ex_tensor_def)
  note w = resize_where_node_shape[OF ex_where_graph_built ex_where_graph_tensors(2)
        ex_where_graph_tensors(4) run]
  have after: "sizes_of ex_where_resized 5 = Inr [4]" "sizes_of ex_where_resized 3 = Inr [4]"
    using w by (simp_all add: ex_tensor_def)
  from ex_where_graph_built run before after show ?thesis by (intro conjI)
qed

text \<open>
  C8. Whatever the resize callback of the where node returns, the graph it leaves differs
  from the graph it started on at most in the value of out: both node lists (and with
  them every node's bindings) are the same, every value other than out is the same, the
  self tensor is the same, the condition and other tensors are the same when they are
  not the output itself, and the out tensor differs at most in its sizes, so no tensor's
  contents, dtype, storage or capacity change.
\<close>

theorem resize_where_node_frame:
  assumes built: "add_where_node graph0 cond self other out = (None, graph1)"
    and run: "resize_where_node graph (dn_args (last (execute_nodes graph1)))
                (dn_resize_args (last (execute_nodes graph1))) = (st, graph')"
  shows "prepack_nodes graph' = prepack_nodes graph
    \<and> execute_nodes graph' = execute_nodes graph
    \<and> length (graph_values graph') = length (graph_values graph)
    \<and> (\<forall>v. v \<noteq> out \<longrightarrow> graph_values graph' ! v = graph_values graph ! v)
    \<and> get_tensor graph' self = get_tensor graph self
    \<and> (cond \<noteq> out \<longrightarrow> get_tensor graph' cond = get_tensor graph cond)
    \<and> (other \<noteq> out \<longrightarrow> get_tensor graph' other = get_tensor graph other)
    \<and> (\<forall>t'. get_tensor graph' out = Inr t' \<longrightarrow>
           (\<exists>t. get_tensor graph out = Inr t \<and> t' = t\<lparr>tensor_sizes := tensor_sizes t'\<rparr>))"
proof -
  have r: "throwing (sizes_of graph self) graph (\<lambda>self_sizes. virtual_resize graph out self_sizes)
             = (st, graph')"
    using run by (simp add: add_where_node_appends[OF built] resize_where_node_builder_args)
  note shape = resize_where_node_result[OF r]
  have 1: "prepack_nodes graph' = prepack_nodes graph" using shape by auto
  have 2: "execute_nodes graph' = execute_nodes graph" using shape by auto
  have 3: "length (graph_values graph') = length (graph_values graph)" using shape by auto
  have 4: "\<forall>v. v \<noteq> out \<longrightarrow> graph_values graph' ! v = graph_values graph ! v"
    using shape by auto
  have 5: "get_tensor graph' self = get_tensor graph self"
    using shape
  proof (elim disjE exE conjE)
    assume "graph' = graph" then show ?thesis by simp
  next
    fix ts to
    assume ts: "get_tensor graph self = Inr ts" and to: "get_tensor graph out = Inr to"
      and g': "graph' = graph\<lparr>graph_values :=
                 (graph_values graph)[out := Tensor (to\<lparr>tensor_sizes := tensor_sizes ts\<rparr>)]\<rparr>"
    show ?thesis
    proof (cases "self = out")
      case True
      then have "to = ts" using ts to by simp
      then show ?thesis using True ts g' by (simp add: get_tensor_update_same[OF to])
    next
      case False
      then show ?thesis using g' by (simp add: get_tensor_update_other)
    qed
  qed
  have 6: "cond \<noteq> out \<longrightarrow> get_tensor graph' cond = get_tensor graph cond"
    using shape by (auto simp: get_tensor_update_other)
  have 7: "other \<noteq> out \<longrightarrow> get_tensor graph' other = get_tensor graph other"
    using shape by (auto simp: get_tensor_update_other)
  have 8: "\<forall>t'. get_tensor graph' out = Inr t' \<longrightarrow>
           (\<exists>t. get_tensor graph out = Inr t \<and> t' = t\<lparr>tensor_sizes := tensor_sizes t'\<rparr>)"
    using shape
  proof (elim disjE exE conjE)
    assume "graph' = graph" then show ?thesis by simp
  next
    fix ts to
    assume to: "get_tensor graph out = Inr to"
      and g': "graph' = graph\<lparr>graph_values :=
                 (graph_values graph)[out := Tensor (to\<lparr>tensor_sizes := tensor_sizes ts\<rparr>)]\<rparr>"
    show ?thesis using g' to by (simp add: get_tensor_update_same[OF to])
  qed
  from 1 2 3 4 5 6 7 8 show ?thesis by blast
qed

theorem resize_where_node_frame_witness:
  "add_where_node ex_where_graph 2 3 4 5 = (None, snd (add_where_node ex_where_graph 2 3 4 5))
   \<and> resize_where_node ex_where_graph
         (dn_args (last (execute_nodes (snd (add_where_node ex_where_graph 2 3 4 5)))))
         (dn_resize_args (last (execute_nodes (snd (add_where_node ex_where_graph 2 3 4 5)))))
       = (None, ex_where_resized)
   \<and> sizes_of ex_where_graph 5 = Inr [2, 2]
   \<and> sizes_of ex_where_resized 5 = Inr [4]
   \<and> prepack_nodes ex_where_resized = prepack_nodes ex_where_graph
   \<and> execute_nodes ex_where_resized = execute_nodes ex_where_graph
   \<and> get_tensor ex_where_resized 2 = get_tensor ex_where_graph 2
   \<and> get_tensor ex_where_resized 3 = get_tensor ex_where_graph 3
   \<and> get_tensor ex_where_resized 4 = get_tensor ex_where_graph 4
   \<and> get_tensor ex_where_resized 5 = Inr ((ex_tensor [2, 2] kInt32 4)\<lparr>tensor_sizes := [4]\<rparr>)"
proof -
  have run: "resize_where_node ex_where_graph
       (dn_args (last (execute_nodes (snd (add_where_node ex_where_graph 2 3 4 5)))))
       (dn_resize_args (last (execute_nodes (snd (add_where_node ex_where_graph 2 3 4 5)))))
     = (None, ex_where_resized)"
    unfolding ex_where_resized_def
    by (simp add: add_where_node_appends[OF ex_where_graph_built] resize_where_node_builder_args
        sizes_of_def ex_where_graph_tensors throwing_Inr virtual_resize_def numel_sizes_def
        ex_tensor_def)
  have before: "sizes_of ex_where_graph 5 = Inr [2, 2]"
    by (simp add: sizes_of_def ex_where_graph_tensors ex_tensor_def)
  have after: "sizes_of ex_where_resized 5 = Inr [4]"
    by (simp add: sizes_of_def ex_where_resized_def get_tensor_def ex_where_graph_def
        ex_tensor_def)
  have out: "get_tensor ex_where_resized 5
               = Inr ((ex_tensor [2, 2] kInt32 4)\<lparr>tensor_sizes := [4]\<rparr>)"
    by (simp add: ex_where_resized_def get_tensor_def ex_where_graph_def ex_tensor_def)
  show ?thesis
    using resize_where_node_frame[OF ex_where_graph_built run] ex_where_graph_built run
      before after out
    by (simp add: ex_where_graph_tensors)
qed

text \<open>
  C5. Each of the three int8x4 staging node builders starts with the two checks. When
  the target tensor's dtype is not \<open>kInt8x4\<close> or its rank exceeds 4, the builder
  ends with the check failure and the graph it was given: neither node list has grown.
\<close>

theorem int8x4_staging_builders_reject:
  assumes "get_tensor graph tensor = Inr t"
    and "tensor_dtype t \<noteq> kInt8x4 \<or> 4 < length (tensor_sizes t)"
  shows "add_prepack_int8x4_buffer_node create_local_wg_size graph tensor_data tensor
           = (Some CheckFailed, graph)
       \<and> add_staging_to_int8x4_buffer_node graph in_staging tensor = (Some CheckFailed, graph)
       \<and> add_int8x4_buffer_to_staging_node graph tensor staging_data = (Some CheckFailed, graph)"
  using assms
  by (auto simp: add_prepack_int8x4_buffer_node_def add_staging_to_int8x4_buffer_node_def
      add_int8x4_buffer_to_staging_node_def dtype_of_def dim_of_def throwing_def VK_CHECK_COND_def)

theorem int8x4_staging_builders_reject_witness:
  "get_tensor ex_rank5_graph 3 = Inr (ex_tensor [1, 2, 3, 4, 5] kInt8x4 120)
   \<and> tensor_dtype (ex_tensor [1, 2, 3, 4, 5] kInt8x4 120) = kInt8x4
   \<and> length (tensor_sizes (ex_tensor [1, 2, 3, 4, 5] kInt8x4 120)) = 5
   \<and> add_prepack_int8x4_buffer_node (\<lambda>g. (64, 1, 1)) ex_rank5_graph 2 3
        = (Some CheckFailed, ex_rank5_graph)
   \<and> add_staging_to_int8x4_buffer_node ex_rank5_graph 2 3 = (Some CheckFailed, ex_rank5_graph)
   \<and> add_int8x4_buffer_to_staging_node ex_rank5_graph 3 2 = (Some CheckFailed, ex_rank5_graph)"
proof -
  have t: "get_tensor ex_rank5_graph 3 = Inr (ex_tensor [1, 2, 3, 4, 5] kInt8x4 120)"
    by (simp add: ex_rank5_graph_def get_tensor_def)
  have r: "tensor_dtype (ex_tensor [1, 2, 3, 4, 5] kInt8x4 120) \<noteq> kInt8x4
           \<or> 4 < length (tensor_sizes (ex_tensor [1, 2, 3, 4, 5] kInt8x4 120))"
    by (simp add: ex_tensor_def)
  show ?thesis
    using int8x4_staging_builders_reject[OF t r, of "\<lambda>g. (64, 1, 1)" 2 2 2] t
    by (simp add: ex_tensor_def)
qed

section \<open>Dispatches, stores and bytes\<close>

lemma cells_buffer_store [simp]: "cells (buffer_store b a v) = (cells b)[a := v]"
  by (simp add: buffer_store_def)

lemma writes_buffer_store [simp]: "writes (buffer_store b a v) = writes b @ [a]"
  by (simp add: buffer_store_def)

lemma dispatch_Nil [simp]: "dispatch k [] s = s"
  by (simp add: dispatch_def)

lemma dispatch_Cons [simp]: "dispatch k (g # gids) s = dispatch k gids (k g s)"
  by (simp add: dispatch_def)

text \<open>
  Dispatches of a kernel that stores one value at the address of its invocation id, or
  returns at once.
\<close>

lemma dispatch_length:
  assumes "\<And>g b. k g b = (if inb g then buffer_store b (unat g) (val g) else b)"
  shows "length (cells (dispatch k gids b)) = length (cells b)"
  by (induction gids arbitrary: b) (simp_all add: assms)

lemma dispatch_writes:
  assumes "\<And>g b. k g b = (if inb g then buffer_store b (unat g) (val g) else b)"
  shows "writes (dispatch k gids b) = writes b @ map unat (filter inb gids)"
  by (induction gids arbitrary: b) (simp_all add: assms)

lemma dispatch_cell:
  assumes k: "\<And>g b. k g b = (if inb g then buffer_store b (unat g) (val g) else b)"
  shows "a < length (cells b) \<Longrightarrow>
         cells (dispatch k gids b) ! a =
           (if \<exists>g \<in> set gids. inb g \<and> unat g = a then val (of_nat a) else cells b ! a)"
proof (induction gids arbitrary: b)
  case Nil
  then show ?case by simp
next
  case (Cons g gids)
  have len: "a < length (cells (k g b))" using Cons.prems by (simp add: k)
  show ?case
  proof (cases "inb g \<and> unat g = a")
    case True
    then have "g = of_nat a" by auto
    then show ?thesis using Cons.IH[OF len] True Cons.prems by (auto simp: k)
  next
    case False
    then have "cells (k g b) ! a = cells b ! a" by (auto simp: k)
    then show ?thesis using Cons.IH[OF len] False by auto
  qed
qed


lemma mask8: "(0xFF :: 32 word) = mask 8"
  by (simp add: mask_eq_exp_minus_1)

lemma byte_of_OR: "byte_of (a OR b) j = byte_of a j OR byte_of b j"
  by (rule bit_eqI) (auto simp: byte_of_def mask8 bit_simps)

lemma byte_of_0 [simp]: "byte_of 0 j = 0"
  by (simp add: byte_of_def)

lemma byte_of_push:
  assumes "j < 4" "k < 4"
  shows "byte_of (push_bit (k * 8) (v AND 0xFF)) j = (if j = k then v AND 0xFF else 0)"
proof (cases "j = k")
  case True
  show ?thesis using \<open>k < 4\<close> unfolding byte_of_def mask8 True
    by (intro bit_eqI) (auto simp: bit_simps)
next
  case False
  have "byte_of (push_bit (k * 8) (v AND 0xFF)) j = 0"
    unfolding byte_of_def mask8
  proof (rule bit_eqI)
    fix n
    assume "possible_bit TYPE(32 word) n"
    have "\<not> (n < 8 \<and> k * 8 \<le> 8 * j + n \<and> 8 * j + n - k * 8 < 8)"
      using False by arith
    then show "bit (drop_bit (8 * j) (push_bit (k * 8) (v AND mask 8)) AND mask 8) n
                 = bit (0 :: 32 word) n"
      by (auto simp: bit_simps)
  qed
  then show ?thesis using False by simp
qed

lemma signed_drop_bit_byte:
  "k \<le> 24 \<Longrightarrow> signed_drop_bit k (w :: 32 word) AND 0xFF = drop_bit k w AND 0xFF"
  unfolding mask8
  by (rule bit_eqI) (auto simp: bit_simps split: if_splits)

lemma vec4_get_set:
  "i < 4 \<Longrightarrow> j < 4 \<Longrightarrow> vec4_get (vec4_set v i a) j = (if j = i then a else vec4_get v j)"
  by (cases v) auto

lemma vec4_set_set: "vec4_set (vec4_set v p a) p b = vec4_set v p b"
  by (cases v) auto

lemma vec4_get_set_same: "vec4_get (vec4_set v p a) p = a"
  by (cases v) auto

lemma vec4_set_get_same: "vec4_set v p (vec4_get v p) = v"
  by (cases v) auto

lemma vec4_get_map2: "vec4_get (vec4_map2 f a b) i = f (vec4_get a i) (vec4_get b i)"
  by (cases a; cases b) auto

lemma vec4_get_map: "vec4_get (vec4_map f a) i = f (vec4_get a i)"
  by (cases a) auto


section \<open>The where kernel, buffer variant\<close>

lemma where_buffer_main_one_store:
  "where_buffer_main outp condp selfp otherp t_condition t_self t_other g b =
     (if \<not> out_of_bounds g outp
      then buffer_store b (unat g)
             (where_select outp condp selfp otherp t_condition t_self t_other g)
      else b)"
  by (simp add: where_buffer_main_def where_select_def operand_at_def Let_def word_neq_0_conv)

text \<open>
  C2. Let \<open>i\<close> be a logical output coordinate (a linear index below the element count
  of out) whose invocation is part of the dispatch, in whatever order the invocations
  run. After the dispatch, output element \<open>i\<close> is the self operand's element at the
  broadcast-clamped coordinate when the condition operand's element there is non-zero,
  and the other operand's element otherwise. The condition is any 8-bit value.
\<close>

theorem where_buffer_select:
  assumes "i < numel outp"
    and "unat (numel outp) \<le> length (cells t_out)"
    and "i \<in> set gids"
  shows "cells (dispatch (where_buffer_main outp condp selfp otherp t_condition t_self t_other)
                  gids t_out) ! unat i
         = (let out_tidx = linear_idx_to_tensor_idx outp i
            in if operand_at condp t_condition out_tidx \<noteq> 0
               then operand_at selfp t_self out_tidx
               else operand_at otherp t_other out_tidx)"
proof -
  have a: "unat i < length (cells t_out)"
    using assms(1,2) by (simp add: word_less_nat_alt)
  have ex: "\<exists>g \<in> set gids. \<not> out_of_bounds g outp \<and> unat g = unat i"
    using assms(1,3) by (intro bexI[of _ i]) (auto simp: out_of_bounds_def)
  show ?thesis
    using dispatch_cell[of "where_buffer_main outp condp selfp otherp t_condition t_self t_other"
        "\<lambda>g. \<not> out_of_bounds g outp"
        "where_select outp condp selfp otherp t_condition t_self t_other",
        OF where_buffer_main_one_store a, of gids] ex
    by (simp add: where_select_def)
qed


theorem where_buffer_select_witness:
  "(2 :: glsl_uint) < numel (ex_meta_1d 4)
   \<and> unat (numel (ex_meta_1d 4)) \<le> length (cells (ex_empty_buffer 4))
   \<and> (2 :: glsl_uint) \<in> set (grid_x 8)
   \<and> cells (dispatch (where_buffer_main (ex_meta_1d 4) (ex_meta_1d 4) (ex_meta_1d 4) (ex_meta_1d 4)
                     [255, 0, 2, 0] [1, 2, 3, 4] [10, 20, 30, 40])
              (grid_x 8) (ex_empty_buffer 4)) ! unat (2 :: glsl_uint) = 3
   \<and> cells (dispatch (where_buffer_main (ex_meta_1d 4) (ex_meta_1d 4) (ex_meta_1d 4) (ex_meta_1d 4)
                     [255, 0, 2, 0] [1, 2, 3, 4] [10, 20, 30, 40])
              (grid_x 8) (ex_empty_buffer 4)) = [1, 20, 3, 40]"
proof -
  have h1: "(2 :: glsl_uint) < numel (ex_meta_1d 4)" by (simp add: ex_meta_1d_def)
  have h2: "unat (numel (ex_meta_1d 4)) \<le> length (cells (ex_empty_buffer 4))"
    by (simp add: ex_meta_1d_def ex_empty_buffer_def)
  have h3: "(2 :: glsl_uint) \<in> set (grid_x 8)" by code_simp
  have r: "(let out_tidx = linear_idx_to_tensor_idx (ex_meta_1d 4) 2
            in if operand_at (ex_meta_1d 4) [255, 0, 2, 0 :: 8 word] out_tidx \<noteq> 0
               then operand_at (ex_meta_1d 4) [1, 2, 3, 4] out_tidx
               else operand_at (ex_meta_1d 4) [10, 20, 30, 40] out_tidx) = (3 :: glsl_int)"
    by code_simp
  have c: "cells (dispatch (where_buffer_main (ex_meta_1d 4) (ex_meta_1d 4) (ex_meta_1d 4)
                     (ex_meta_1d 4) [255, 0, 2, 0] [1, 2, 3, 4] [10, 20, 30, 40])
              (grid_x 8) (ex_empty_buffer 4)) ! unat (2 :: glsl_uint) = 3"
    using where_buffer_select[OF h1 h2 h3, where condp = "ex_meta_1d 4"
        and t_condition = "[255, 0, 2, 0]" and selfp = "ex_meta_1d 4"
        and t_self = "[1, 2, 3, 4]" and otherp = "ex_meta_1d 4"
        and t_other = "[10, 20, 30, 40]"]
    unfolding r .
  have a: "cells (dispatch (where_buffer_main (ex_meta_1d 4) (ex_meta_1d 4) (ex_meta_1d 4)
                     (ex_meta_1d 4) [255, 0, 2, 0] [1, 2, 3, 4] [10, 20, 30, 40])
              (grid_x 8) (ex_empty_buffer 4)) = [1, 20, 3, 40]"
    by code_simp
  from h1 h2 h3 c a show ?thesis by (intro conjI)
qed

lemma idx_at_clamp:
  assumes "d div 4 < length tidx" "d div 4 < length (sizes meta)"
  shows "idx_at (clamp_tensor_idx meta tidx) d = min (idx_at tidx d) (size_at meta d - 1)"
  using assms
  by (simp add: idx_at_def clamp_tensor_idx_def size_at_def vec4_get_map2)

lemma clamp_tensor4d_idx_get:
  "vec4_get (clamp_tensor4d_idx tmeta data) d
     = imin (vec4_get data d) (vec4_get (sizes_t tmeta) d - 1)"
  by (simp add: clamp_tensor4d_idx_def vec4_get_map2 vec4_get_map)

lemma where_scenario_cell:
  assumes "set (grid_x 4) \<subseteq> set gids" "length (cells t_out) = 4" "a < 4"
  shows "cells (dispatch (where_buffer_main (ex_meta_1d 4) (ex_meta_1d 1) (ex_meta_1d 4)
                  (ex_meta_1d 4) [1] [5, 6, 7, 8] [0, 0, 0, 0]) gids t_out) ! a
         = [5, 6, 7, 8 :: glsl_int] ! a"
proof -
  have len: "a < length (cells t_out)" using assms(2,3) by simp
  have mem: "(of_nat a :: glsl_uint) \<in> set gids"
    using assms(1,3) by (auto simp: grid_x_def)
  have ua: "unat (of_nat a :: glsl_uint) = a" using assms(3) by (simp add: unat_of_nat)
  have inb: "\<not> out_of_bounds (of_nat a) (ex_meta_1d 4)"
    using ua assms(3) by (simp add: out_of_bounds_def ex_meta_1d_def word_le_nat_alt)
  have ex: "\<exists>g \<in> set gids. \<not> out_of_bounds g (ex_meta_1d 4) \<and> unat g = a"
    using mem inb ua by (intro bexI[of _ "of_nat a"]) auto
  have "a = 0 \<or> a = 1 \<or> a = 2 \<or> a = 3" using assms(3) by arith
  then have v: "where_select (ex_meta_1d 4) (ex_meta_1d 1) (ex_meta_1d 4) (ex_meta_1d 4)
                  [1] [5, 6, 7, 8] [0, 0, 0, 0] (of_nat a) = [5, 6, 7, 8 :: glsl_int] ! a"
    by (elim disjE) (simp_all, code_simp+)
  show ?thesis
    using dispatch_cell[of "where_buffer_main (ex_meta_1d 4) (ex_meta_1d 1) (ex_meta_1d 4)
        (ex_meta_1d 4) [1] [5, 6, 7, 8] [0, 0, 0, 0]" "\<lambda>g. \<not> out_of_bounds g (ex_meta_1d 4)"
        _ a t_out gids, OF where_buffer_main_one_store len] ex v
    by simp
qed

text \<open>
  C3. The broadcast clamp of the buffer variant maps dimension \<open>d\<close> of an index to
  \<open>min(idx[d], size[d] - 1)\<close> (unsigned), so where the operand's size is 1 the clamped
  coordinate is 0 whatever the output coordinate; the per-lane clamp of the texture
  variant does the same with the signed minimum, for a non-negative coordinate. In the
  scenario (condition of shape [1] with value 1, self [5, 6, 7, 8], other [0, 0, 0, 0])
  every dispatch that covers the four output elements leaves out = [5, 6, 7, 8].
\<close>

theorem broadcast_clamp:
  assumes "d div 4 < length tidx" and "d div 4 < length (sizes meta)"
    and "set (grid_x 4) \<subseteq> set gids" and "length (cells t_out) = 4"
  shows "idx_at (clamp_tensor_idx meta tidx) d = min (idx_at tidx d) (size_at meta d - 1)
    \<and> (size_at meta d = 1 \<longrightarrow> idx_at (clamp_tensor_idx meta tidx) d = 0)
    \<and> vec4_get (clamp_tensor4d_idx tmeta data) d
        = imin (vec4_get data d) (vec4_get (sizes_t tmeta) d - 1)
    \<and> (vec4_get (sizes_t tmeta) d = 1 \<and> 0 \<le>s vec4_get data d
         \<longrightarrow> vec4_get (clamp_tensor4d_idx tmeta data) d = 0)
    \<and> cells (dispatch (where_buffer_main (ex_meta_1d 4) (ex_meta_1d 1) (ex_meta_1d 4)
                  (ex_meta_1d 4) [1] [5, 6, 7, 8] [0, 0, 0, 0]) gids t_out)
        = [5, 6, 7, 8 :: glsl_int]"
proof -
  have 1: "idx_at (clamp_tensor_idx meta tidx) d = min (idx_at tidx d) (size_at meta d - 1)"
    using idx_at_clamp[OF assms(1,2)] .
  have 2: "size_at meta d = 1 \<longrightarrow> idx_at (clamp_tensor_idx meta tidx) d = 0"
    using 1 by simp
  have 3: "vec4_get (clamp_tensor4d_idx tmeta data) d
             = imin (vec4_get data d) (vec4_get (sizes_t tmeta) d - 1)"
    by (rule clamp_tensor4d_idx_get)
  have 4: "vec4_get (sizes_t tmeta) d = 1 \<and> 0 \<le>s vec4_get data d
             \<longrightarrow> vec4_get (clamp_tensor4d_idx tmeta data) d = 0"
  proof
    assume a: "vec4_get (sizes_t tmeta) d = 1 \<and> 0 \<le>s vec4_get data d"
    show "vec4_get (clamp_tensor4d_idx tmeta data) d = 0"
    proof (cases "0 <s vec4_get data d")
      case True
      then show ?thesis using 3 a by (simp add: imin_def)
    next
      case False
      then have "sint (vec4_get data d) = 0"
        using a by (simp add: word_sless_alt word_sle_eq)
      then have "vec4_get data d = 0" by (simp add: signed_eq_0_iff)
      then show ?thesis using 3 a by (simp add: imin_def)
    qed
  qed
  have len: "length (cells (dispatch (where_buffer_main (ex_meta_1d 4) (ex_meta_1d 1)
               (ex_meta_1d 4) (ex_meta_1d 4) [1] [5, 6, 7, 8 :: glsl_int] [0, 0, 0, 0]) gids t_out))
             = 4"
    using dispatch_length[of "where_buffer_main (ex_meta_1d 4) (ex_meta_1d 1) (ex_meta_1d 4)
        (ex_meta_1d 4) [1] [5, 6, 7, 8] [0, 0, 0, 0]" "\<lambda>g. \<not> out_of_bounds g (ex_meta_1d 4)",
        OF where_buffer_main_one_store, of gids t_out] assms(4)
    by simp
  have 5: "cells (dispatch (where_buffer_main (ex_meta_1d 4) (ex_meta_1d 1) (ex_meta_1d 4)
                  (ex_meta_1d 4) [1] [5, 6, 7, 8] [0, 0, 0, 0]) gids t_out)
        = [5, 6, 7, 8 :: glsl_int]"
    using len where_scenario_cell[OF assms(3,4)]
    by (intro nth_equalityI) simp_all
  from 1 2 3 4 5 show ?thesis by (intro conjI)
qed

theorem broadcast_clamp_witness:
  "idx_at (clamp_tensor_idx (ex_meta_1d 1) (linear_idx_to_tensor_idx (ex_meta_1d 4) 3)) 0 = 0
   \<and> idx_at (linear_idx_to_tensor_idx (ex_meta_1d 4) 3) 0 = 3
   \<and> size_at (ex_meta_1d 1) 0 = 1
   \<and> vec4_get (clamp_tensor4d_idx (ex_tex_meta 1) (Vec4 3 0 0 0)) 0 = 0
   \<and> cells (dispatch (where_buffer_main (ex_meta_1d 4) (ex_meta_1d 1) (ex_meta_1d 4)
                 (ex_meta_1d 4) [1] [5, 6, 7, 8] [0, 0, 0, 0]) (grid_x 8) (ex_empty_buffer 4))
       = [5, 6, 7, 8]"
proof -
  have h1: "0 div 4 < length (linear_idx_to_tensor_idx (ex_meta_1d 4) 3)"
    by (simp add: linear_idx_to_tensor_idx_def ex_meta_1d_def)
  have h2: "0 div 4 < length (sizes (ex_meta_1d 1))" by (simp add: ex_meta_1d_def)
  have h3: "set (grid_x 4) \<subseteq> set (grid_x 8)" by code_simp
  have h4: "length (cells (ex_empty_buffer 4)) = 4" by (simp add: ex_empty_buffer_def)
  have s1: "size_at (ex_meta_1d 1) 0 = 1" by (simp add: size_at_def ex_meta_1d_def)
  have s2: "idx_at (linear_idx_to_tensor_idx (ex_meta_1d 4) 3) 0 = 3" by code_simp
  have s3: "vec4_get (sizes_t (ex_tex_meta 1)) 0 = 1 \<and> 0 \<le>s vec4_get (Vec4 3 0 0 0 :: ivec4) 0"
    by (simp add: ex_tex_meta_def word_sle_eq)
  note b = broadcast_clamp[OF h1 h2 h3 h4, of "ex_tex_meta 1" "Vec4 3 0 0 0"]
  have c1: "idx_at (clamp_tensor_idx (ex_meta_1d 1) (linear_idx_to_tensor_idx (ex_meta_1d 4) 3)) 0
              = 0"
    using b s1 by blast
  have c2: "vec4_get (clamp_tensor4d_idx (ex_tex_meta 1) (Vec4 3 0 0 0)) 0 = 0"
    using b s3 by blast
  have c3: "cells (dispatch (where_buffer_main (ex_meta_1d 4) (ex_meta_1d 1) (ex_meta_1d 4)
                 (ex_meta_1d 4) [1] [5, 6, 7, 8] [0, 0, 0, 0]) (grid_x 8) (ex_empty_buffer 4))
       = [5, 6, 7, 8]"
    using b by blast
  from c1 s2 s1 c2 c3 show ?thesis by (intro conjI)
qed

section \<open>The int8x4 round trip\<close>

lemma unat_nchw_idx:
  assumes "unat out_idx * 4 + 3 < 2 ^ 32" "j < 4"
  shows "unat (out_idx * 4 + of_nat j :: 32 word) = unat out_idx * 4 + j"
  using assms by (simp add: unat_word_ariths unat_of_nat)

lemma byte_of_acc_step:
  assumes "j' < 4" "j < 4" "v AND 0xFF = v"
  shows "byte_of (acc OR push_bit (j * 8) v) j' = byte_of acc j' OR (if j' = j then v else 0)"
proof -
  have "byte_of (push_bit (j * 8) v) j' = (if j' = j then v else 0)"
    using byte_of_push[OF assms(1,2), of v] assms(3) by simp
  then show ?thesis by (simp add: byte_of_OR)
qed

lemma unpack_loop_byte:
  assumes "j' < 4"
    and "unat out_idx * 4 + 3 < 2 ^ 32"
    and "\<And>x. fetch x AND 0xFF = fetch x"
  shows "byte_of (int8x4_buffer_to_nchw_loop fetch out_idx tot j acc) j' =
         byte_of acc j' OR
           (if j \<le> j' \<and> unat out_idx * 4 + j' < unat tot
            then fetch (out_idx * 4 + of_nat j') else 0)"
  using assms
proof (induction fetch out_idx tot j acc rule: int8x4_buffer_to_nchw_loop.induct)
  case (1 fetch out_idx tot j acc)
  show ?case
  proof (cases "j < 4")
    case False
    then show ?thesis using "1.prems"(1)
      by (subst int8x4_buffer_to_nchw_loop.simps) simp
  next
    case j: True
    let ?idx = "out_idx * 4 + of_nat j"
    have u: "unat ?idx = unat out_idx * 4 + j"
      using unat_nchw_idx[OF "1.prems"(2) j] .
    show ?thesis
    proof (cases "tot \<le> ?idx")
      case True
      then have "unat tot \<le> unat out_idx * 4 + j"
        using u by (simp add: word_le_nat_alt)
      then have no: "\<not> (j \<le> j' \<and> unat out_idx * 4 + j' < unat tot)" by arith
      have "int8x4_buffer_to_nchw_loop fetch out_idx tot j acc = acc"
        using True j by (subst int8x4_buffer_to_nchw_loop.simps) (simp add: Let_def)
      then show ?thesis using no by auto
    next
      case False
      then have lt: "unat out_idx * 4 + j < unat tot"
        using u by (simp add: word_le_nat_alt)
      have ih: "byte_of (int8x4_buffer_to_nchw_loop fetch out_idx tot (j + 1)
                   (acc OR push_bit (j * 8) (fetch ?idx))) j' =
                byte_of (acc OR push_bit (j * 8) (fetch ?idx)) j' OR
                  (if j + 1 \<le> j' \<and> unat out_idx * 4 + j' < unat tot
                   then fetch (out_idx * 4 + of_nat j') else 0)"
        using "1.IH"[OF j refl False "1.prems"] .
      have st: "byte_of (acc OR push_bit (j * 8) (fetch ?idx)) j' =
                byte_of acc j' OR (if j' = j then fetch ?idx else 0)"
        using byte_of_acc_step[OF "1.prems"(1) j "1.prems"(3)] .
      have unf: "int8x4_buffer_to_nchw_loop fetch out_idx tot j acc =
                 int8x4_buffer_to_nchw_loop fetch out_idx tot (j + 1)
                   (acc OR push_bit (j * 8) (fetch ?idx))"
        using j False by (subst int8x4_buffer_to_nchw_loop.simps) (simp add: Let_def)
      show ?thesis
      proof (cases "j' = j")
        case True
        then show ?thesis using ih st unf lt by simp
      next
        case False
        then have "(j + 1 \<le> j') = (j \<le> j')" by arith
        then show ?thesis using ih st unf False by (simp add: ac_simps)
      qed
    qed
  qed
qed

lemma sint_word_of_int_small:
  assumes "0 \<le> x" "x < 2 ^ 31"
  shows "sint (word_of_int x :: 32 word) = x"
  using assms by (simp add: sint_sbintrunc' signed_take_bit_int_eq_self)

lemma sint_int_div4:
  assumes "0 \<le>s (e :: 32 word)"
  shows "nat (sint (int_div e 4)) = nat (sint e) div 4"
proof -
  have nn: "0 \<le> sint e" using assms by (simp add: word_sle_eq)
  have ub: "sint e < 2 ^ 31" using sint_lt[of e] by simp
  have "sint e sdiv sint (4 :: 32 word) = sint e div 4"
    using nn by (simp add: signed_divide_int_def sgn_if)
  moreover have "sint (word_of_int (sint e div 4) :: 32 word) = sint e div 4"
    using nn ub by (intro sint_word_of_int_small) auto
  ultimately show ?thesis using nn
    by (simp add: int_div_def nat_div_distrib)
qed

lemma sint_int_mod4:
  assumes "0 \<le>s (e :: 32 word)"
  shows "nat (sint (int_mod e 4 * 8)) = 8 * (nat (sint e) mod 4)"
proof -
  have nn: "0 \<le> sint e" using assms by (simp add: word_sle_eq)
  have m: "sint e smod sint (4 :: 32 word) = sint e mod 4"
    using nn by (simp add: signed_modulo_int_def signed_divide_int_def sgn_if minus_div_mult_eq_mod)
  have "int_mod e 4 * 8 = (word_of_int ((sint e mod 4) * 8) :: 32 word)"
    using m by (simp add: int_mod_def)
  moreover have "sint (word_of_int ((sint e mod 4) * 8) :: 32 word) = (sint e mod 4) * 8"
    by (intro sint_word_of_int_small) auto
  ultimately show ?thesis using nn
    by (simp add: nat_mult_distrib nat_mod_distrib)
qed

lemma int8x4_fetch_byte:
  assumes "0 \<le>s idxf inp (nchw_idx_to_tensor4d W H C x) layout"
  shows "int8x4_fetch idxf inp layout t_inp W H C x =
         byte_of (t_inp ! (nat (sint (idxf inp (nchw_idx_to_tensor4d W H C x) layout)) div 4))
           (nat (sint (idxf inp (nchw_idx_to_tensor4d W H C x) layout)) mod 4)"
proof -
  have "8 * (nat (sint (idxf inp (nchw_idx_to_tensor4d W H C x) layout)) mod 4) \<le> 24"
    by arith
  then show ?thesis
    by (simp add: int8x4_fetch_def Let_def sint_int_div4[OF assms] sint_int_mod4[OF assms]
        signed_drop_bit_byte byte_of_def)
qed

lemma int8x4_fetch_masked: "int8x4_fetch idxf inp layout t_inp W H C x AND 0xFF
   = int8x4_fetch idxf inp layout t_inp W H C x"
  by (simp add: int8x4_fetch_def Let_def)

lemma find_distinct:
  "distinct (map f xs) \<Longrightarrow> x \<in> set xs \<Longrightarrow> find (\<lambda>y. f y = f x) xs = Some x"
  by (induction xs) auto

lemma staging_byte_masked: "staging_byte nchw i AND 0xFF = staging_byte nchw i"
  by (simp add: staging_byte_def)

lemma staging_byte_byte_of: "staging_byte nchw i = byte_of (nchw ! (i div 4)) (i mod 4)"
  by (simp add: staging_byte_def byte_of_def)

lemma lane_masked:
  "nchw_to_int8x4_lane idxf outp layout nchw_in e AND 0xFF
     = nchw_to_int8x4_lane idxf outp layout nchw_in e"
  by (simp add: nchw_to_int8x4_lane_def Let_def staging_byte_masked split: option.splits)

lemma byte_of_slot:
  assumes l: "l < 4"
    and m: "a0 AND 0xFF = a0" "a1 AND 0xFF = a1" "a2 AND 0xFF = a2" "a3 AND 0xFF = a3"
  shows "byte_of (a0 OR push_bit 8 a1 OR push_bit 16 a2 OR push_bit 24 a3) l =
         (if l = 0 then a0 else if l = 1 then a1 else if l = 2 then a2 else a3)"
proof -
  have p0: "byte_of a0 l = (if l = 0 then a0 else 0)"
    using byte_of_push[OF l, of 0 a0] m(1) by simp
  have p1: "byte_of (push_bit 8 a1) l = (if l = 1 then a1 else 0)"
    using byte_of_push[OF l, of 1 a1] m(2) by simp
  have p2: "byte_of (push_bit 16 a2) l = (if l = 2 then a2 else 0)"
    using byte_of_push[OF l, of 2 a2] m(3) by simp
  have p3: "byte_of (push_bit 24 a3) l = (if l = 3 then a3 else 0)"
    using byte_of_push[OF l, of 3 a3] m(4) by simp
  have "l = 0 \<or> l = 1 \<or> l = 2 \<or> l = 3" using l by arith
  then show ?thesis
    by (auto simp: byte_of_OR p0 p1 p2 p3)
qed

lemma pack_main_one_store:
  "nchw_to_int8x4_buffer_main idxf outp layout num_texels nchw_in g b =
     (if \<not> num_texels \<le> g then buffer_store b (unat g)
        (nchw_to_int8x4_lane idxf outp layout nchw_in (g * 4)
         OR push_bit 8 (nchw_to_int8x4_lane idxf outp layout nchw_in (g * 4 + 1))
         OR push_bit 16 (nchw_to_int8x4_lane idxf outp layout nchw_in (g * 4 + 2))
         OR push_bit 24 (nchw_to_int8x4_lane idxf outp layout nchw_in (g * 4 + 3)))
      else b)"
  by (simp add: nchw_to_int8x4_buffer_main_def Let_def)

lemma pack_slot_byte:
  assumes "l < 4"
  shows "byte_of
        (nchw_to_int8x4_lane idxf outp layout nchw_in (g * 4)
         OR push_bit 8 (nchw_to_int8x4_lane idxf outp layout nchw_in (g * 4 + 1))
         OR push_bit 16 (nchw_to_int8x4_lane idxf outp layout nchw_in (g * 4 + 2))
         OR push_bit 24 (nchw_to_int8x4_lane idxf outp layout nchw_in (g * 4 + 3))) l
     = nchw_to_int8x4_lane idxf outp layout nchw_in (g * 4 + of_nat l)"
proof -
  have "l = 0 \<or> l = 1 \<or> l = 2 \<or> l = 3" using assms by arith
  then show ?thesis
    by (auto simp: byte_of_slot[OF assms lane_masked lane_masked lane_masked lane_masked])
qed

text \<open>The packed buffer after the upload: byte \<open>l\<close> of slot \<open>s\<close>.\<close>

lemma pack_cells_byte:
  assumes "s < length (cells t_outp)" "of_nat s \<in> set gids" "s < unat num_texels" "l < 4"
  shows "byte_of (cells (nchw_to_int8x4_buffer idxf outp layout num_texels gids nchw_in t_outp)
                    ! s) l
         = nchw_to_int8x4_lane idxf outp layout nchw_in (of_nat s * 4 + of_nat l)"
proof -
  have s32: "s < 2 ^ 32"
    using assms(3) unsigned_less[of num_texels, where 'a=nat] by simp
  have us: "unat (of_nat s :: 32 word) = s" using s32 by (simp add: unat_of_nat)
  have inb: "\<not> num_texels \<le> (of_nat s :: 32 word)"
    using assms(3) us by (simp add: word_le_nat_alt)
  have ex: "\<exists>g \<in> set gids. \<not> num_texels \<le> g \<and> unat g = s"
    using assms(2) inb us by (intro bexI[of _ "of_nat s"]) auto
  show ?thesis
    unfolding nchw_to_int8x4_buffer_def
    using dispatch_cell[of "nchw_to_int8x4_buffer_main idxf outp layout num_texels nchw_in"
        "\<lambda>g. \<not> num_texels \<le> g" _ s t_outp gids, OF pack_main_one_store assms(1)] ex
    by (simp add: pack_slot_byte[OF assms(4)])
qed

lemma unpack_main_one_store:
  "int8x4_buffer_to_nchw_main idxf inp layout t_inp g b =
     (if \<not> num_out_int32s inp \<le> g
      then buffer_store b (unat g)
        (int8x4_buffer_to_nchw_loop
           (int8x4_fetch idxf inp layout t_inp (vec4_get (sizes inp ! 0) 0)
              (vec4_get (sizes inp ! 0) 1) (vec4_get (sizes inp ! 0) 2))
           g (vec4_get (sizes inp ! 0) 0 * vec4_get (sizes inp ! 0) 1
              * vec4_get (sizes inp ! 0) 2 * vec4_get (sizes inp ! 0) 3) 0 0)
      else b)"
  by (simp add: int8x4_buffer_to_nchw_main_def num_out_int32s_def Let_def)

lemma whcn_numel_unat:
  assumes "whcn_numel meta < 2 ^ 32"
  shows "unat (vec4_get (sizes meta ! 0) 0 * vec4_get (sizes meta ! 0) 1
              * vec4_get (sizes meta ! 0) 2 * vec4_get (sizes meta ! 0) 3) = whcn_numel meta"
  using assms
  by (simp add: whcn_numel_def unat_word_ariths mod_mult_left_eq mod_mult_right_eq)

lemma grid_x_mem: "a < n \<Longrightarrow> of_nat a \<in> set (grid_x n)"
  by (simp add: grid_x_def)

lemma word_of_nat_div_mod: "(of_nat (n div 4) :: 32 word) * 4 + of_nat (n mod 4) = of_nat n"
proof -
  have "(of_nat (n div 4 * 4 + n mod 4) :: 32 word) = of_nat n"
    by (simp only: div_mult_mod_eq)
  then show ?thesis by (simp only: of_nat_add of_nat_mult of_nat_numeral)
qed

lemma of_nat_nat_sint:
  assumes "0 \<le>s (e :: 32 word)"
  shows "of_nat (nat (sint e)) = e"
proof -
  have "0 \<le> sint e" using assms by (simp add: word_sle_eq)
  then have "(of_nat (nat (sint e)) :: 32 word) = of_int (sint e)"
    by (simp add: of_nat_nat)
  then show ?thesis by simp
qed

lemma whcn_coords_mem:
  "w < unat W \<Longrightarrow> h < unat H \<Longrightarrow> c < unat C \<Longrightarrow> n < unat N \<Longrightarrow>
   Vec4 (of_nat w) (of_nat h) (of_nat c) (of_nat n) \<in> set (whcn_coords W H C N)"
  unfolding whcn_coords_def set_concat set_map image_image
  by (intro UN_I[of n] UN_I[of c] UN_I[of h] image_eqI[of _ _ w]) simp_all

text \<open>Splitting a row-major position into its four coordinates, on natural numbers.\<close>

lemma nchw_split_nat:
  fixes W H C :: nat
  shows "(((i div (W * H * C)) * C + (i div (W * H)) mod C) * H + (i div W) mod H) * W + i mod W = i"
proof -
  have a: "i div (W * H) = (i div W) div H" by (simp add: div_mult2_eq)
  have b: "i div (W * H * C) = ((i div W) div H) div C" by (simp add: div_mult2_eq)
  have 1: "((i div W) div H) div C * C + ((i div W) div H) mod C = (i div W) div H" by simp
  have 2: "((i div W) div H) * H + (i div W) mod H = i div W" by simp
  have 3: "(i div W) * W + i mod W = i" by simp
  show ?thesis unfolding a b 1 2 3 ..
qed

lemma nchw_idx_to_tensor4d_nat:
  fixes W H C N :: "32 word"
  assumes fits: "unat W * unat H * unat C * unat N < 2 ^ 32"
    and i: "i < unat W * unat H * unat C * unat N"
  shows "nchw_idx_to_tensor4d W H C (of_nat i) =
           Vec4 (of_nat (i mod unat W)) (of_nat ((i div unat W) mod unat H))
                (of_nat ((i div (unat W * unat H)) mod unat C))
                (of_nat (i div (unat W * unat H * unat C)))"
    and "i mod unat W < unat W" and "(i div unat W) mod unat H < unat H"
    and "(i div (unat W * unat H)) mod unat C < unat C"
    and "i div (unat W * unat H * unat C) < unat N"
proof -
  have pos: "0 < unat W" "0 < unat H" "0 < unat C" "0 < unat N"
    using i by (auto intro: Nat.gr0I)
  have i32: "i < 2 ^ 32" using i fits by simp
  have ui: "unat (of_nat i :: 32 word) = i" using i32 by (simp add: unat_of_nat)
  have "unat W * unat H * 1 \<le> unat W * unat H * (unat C * unat N)"
    using pos by (intro mult_le_mono2) (simp add: Suc_leI)
  then have le1: "unat W * unat H \<le> unat W * unat H * unat C * unat N"
    by (simp only: mult_1_right mult.assoc)
  have WH_lt: "unat W * unat H < 2 ^ 32"
    by (rule le_less_trans[OF le1 fits])
  have "unat W * unat H * unat C * 1 \<le> unat W * unat H * unat C * unat N"
    using pos by (intro mult_le_mono2) (simp add: Suc_leI)
  then have le2: "unat W * unat H * unat C \<le> unat W * unat H * unat C * unat N"
    by (simp only: mult_1_right)
  have WHC_lt: "unat W * unat H * unat C < 2 ^ 32"
    by (rule le_less_trans[OF le2 fits])
  have uWH: "unat (W * H) = unat W * unat H"
    using WH_lt by (simp add: unat_word_ariths)
  have uWHC: "unat (W * H * C) = unat W * unat H * unat C"
    using WHC_lt uWH by (simp add: unat_word_ariths)
  have small: "unat (of_nat x :: 32 word) = x" if "x \<le> i" for x
    using that i32 by (simp add: unat_of_nat)
  have b1: "i mod unat W \<le> i" by simp
  have b2: "(i div unat W) mod unat H \<le> i"
    by (rule order_trans[OF mod_less_eq_dividend]) simp
  have b3: "(i div (unat W * unat H)) mod unat C \<le> i"
    by (rule order_trans[OF mod_less_eq_dividend]) simp
  have b4: "i div (unat W * unat H * unat C) \<le> i" by simp
  have w: "(of_nat i :: 32 word) mod W = of_nat (i mod unat W)"
    by (rule word_unat_eq_iff[THEN iffD2]) (simp only: unat_mod ui small[OF b1])
  show "i mod unat W < unat W" using pos by simp
  show "(i div unat W) mod unat H < unat H" using pos by simp
  show "(i div (unat W * unat H)) mod unat C < unat C" using pos by simp
  show "i div (unat W * unat H * unat C) < unat N"
    using i pos by (simp add: less_mult_imp_div_less mult.commute)
  show "nchw_idx_to_tensor4d W H C (of_nat i) =
           Vec4 (of_nat (i mod unat W)) (of_nat ((i div unat W) mod unat H))
                (of_nat ((i div (unat W * unat H)) mod unat C))
                (of_nat (i div (unat W * unat H * unat C)))"
  proof -
    have h: "((of_nat i :: 32 word) div W) mod H = of_nat ((i div unat W) mod unat H)"
      by (rule word_unat_eq_iff[THEN iffD2])
        (simp only: unat_mod unat_div ui small[OF b2])
    have c: "((of_nat i :: 32 word) div (W * H)) mod C
               = of_nat ((i div (unat W * unat H)) mod unat C)"
      by (rule word_unat_eq_iff[THEN iffD2])
        (simp only: unat_mod unat_div ui uWH small[OF b3])
    have n: "(of_nat i :: 32 word) div (W * H * C) = of_nat (i div (unat W * unat H * unat C))"
      by (rule word_unat_eq_iff[THEN iffD2])
        (simp only: unat_div ui uWHC small[OF b4])
    show ?thesis
      by (simp only: nchw_idx_to_tensor4d_def Let_def w h c n)
  qed
qed

text \<open>
  The unpack kernel's conversion of an NCHW linear index gives a coordinate inside the
  sizes, and the NCHW position of that coordinate is the linear index again.
\<close>

lemma nchw_idx_to_tensor4d_pos:
  fixes W H C N :: "32 word"
  assumes fits: "unat W * unat H * unat C * unat N < 2 ^ 32"
    and i: "i < unat W * unat H * unat C * unat N"
  shows "nchw_idx_to_tensor4d W H C (of_nat i) \<in> set (whcn_coords W H C N)"
    and "nchw_pos W H C (nchw_idx_to_tensor4d W H C (of_nat i)) = i"
proof -
  note c = nchw_idx_to_tensor4d_nat[OF fits i]
  show "nchw_idx_to_tensor4d W H C (of_nat i) \<in> set (whcn_coords W H C N)"
    unfolding c(1) by (rule whcn_coords_mem[OF c(2) c(3) c(4) c(5)])
  have lt: "unat X < 2 ^ 32" for X :: "32 word"
    using unsigned_less[of X, where 'a=nat] by simp
  have u: "unat (of_nat x :: 32 word) = x" if "x < unat X" for x and X :: "32 word"
    using that lt[of X] by (simp add: unat_of_nat)
  show "nchw_pos W H C (nchw_idx_to_tensor4d W H C (of_nat i)) = i"
    unfolding c(1) nchw_pos_def vec4_get.simps
    by (simp only: u[OF c(2)] u[OF c(3)] u[OF c(4)] u[OF c(5)] nchw_split_nat
        if_True if_False refl numeral_eq_Suc)
      (simp add: u[OF c(2)] u[OF c(3)] u[OF c(4)] u[OF c(5)] nchw_split_nat)
qed

lemma lane_at:
  assumes ok: "buf_idx_ok idxf meta layout num_texels"
    and t: "tidx \<in> set (whcn_coords (vec4_get (sizes meta ! 0) 0) (vec4_get (sizes meta ! 0) 1)
                            (vec4_get (sizes meta ! 0) 2) (vec4_get (sizes meta ! 0) 3))"
  shows "nchw_to_int8x4_lane idxf meta layout nchw_in (idxf meta tidx layout)
         = staging_byte nchw_in
             (nchw_pos (vec4_get (sizes meta ! 0) 0) (vec4_get (sizes meta ! 0) 1)
                (vec4_get (sizes meta ! 0) 2) tidx)"
    and "0 \<le>s idxf meta tidx layout"
    and "nat (sint (idxf meta tidx layout)) div 4 < unat num_texels"
proof -
  let ?f = "\<lambda>tidx. idxf meta tidx layout"
  let ?cs = "whcn_coords (vec4_get (sizes meta ! 0) 0) (vec4_get (sizes meta ! 0) 1)
               (vec4_get (sizes meta ! 0) 2) (vec4_get (sizes meta ! 0) 3)"
  have d: "distinct (map ?f ?cs)"
    and a: "list_all (\<lambda>e. 0 \<le>s e \<and> nat (sint e) div 4 < unat num_texels) (map ?f ?cs)"
    using ok by (simp_all add: buf_idx_ok_def Let_def)
  have "find (\<lambda>y. ?f y = ?f tidx) ?cs = Some tidx"
    using find_distinct[OF d t] .
  then show "nchw_to_int8x4_lane idxf meta layout nchw_in (?f tidx)
         = staging_byte nchw_in
             (nchw_pos (vec4_get (sizes meta ! 0) 0) (vec4_get (sizes meta ! 0) 1)
                (vec4_get (sizes meta ! 0) 2) tidx)"
    by (simp add: nchw_to_int8x4_lane_def Let_def)
  have "?f tidx \<in> ?f ` set ?cs" using t by (rule imageI)
  then have "?f tidx \<in> set (map ?f ?cs)" by (simp only: set_map)
  moreover have "\<forall>e \<in> set (map ?f ?cs). 0 \<le>s e \<and> nat (sint e) div 4 < unat num_texels"
    using a by (simp only: list_all_iff)
  ultimately have "0 \<le>s ?f tidx \<and> nat (sint (?f tidx)) div 4 < unat num_texels"
    by blast
  then show "0 \<le>s ?f tidx" and "nat (sint (?f tidx)) div 4 < unat num_texels" by simp_all
qed

lemma unat_num_out_int32s:
  assumes "whcn_numel meta < 2 ^ 31"
  shows "unat (num_out_int32s meta) = (whcn_numel meta + 3) div 4"
proof -
  have f: "whcn_numel meta < 2 ^ 32" using assms by simp
  show ?thesis
    using assms whcn_numel_unat[OF f]
    by (simp add: num_out_int32s_def unat_div unat_word_ariths(1))
qed

text \<open>
  C1. Take a tensor whose element count fits the kernels' 32-bit index arithmetic, an
  index function that gives the coordinates inside the sizes distinct places inside a
  packed buffer of \<open>num_texels\<close> slots, and staging contents \<open>nchw_in\<close> in NCHW order.
  Pack them with \<open>nchw_to_int8x4_buffer\<close> (any dispatch that covers the slots), then
  unpack the packed buffer with \<open>int8x4_buffer_to_nchw\<close> (any dispatch that covers the
  staging words). Every byte \<open>i\<close> of the logical element range of the result is byte
  \<open>i\<close> of \<open>nchw_in\<close>, whether or not the element count is a multiple of 4.
\<close>

theorem int8x4_roundtrip:
  assumes fits: "whcn_numel meta < 2 ^ 31"
    and ok: "buf_idx_ok idxf meta layout num_texels"
    and dev: "length (cells t_buf) = unat num_texels"
    and stg: "length (cells nchw_out) = (whcn_numel meta + 3) div 4"
    and gp: "set (grid_x (unat num_texels)) \<subseteq> set gids_pack"
    and gu: "set (grid_x ((whcn_numel meta + 3) div 4)) \<subseteq> set gids_unpack"
    and i: "i < whcn_numel meta"
  shows "staging_byte (cells (int8x4_buffer_to_nchw idxf meta layout gids_unpack
            (cells (nchw_to_int8x4_buffer idxf meta layout num_texels gids_pack nchw_in t_buf))
            nchw_out)) i
         = staging_byte nchw_in i"
proof -
  let ?W = "vec4_get (sizes meta ! 0) 0"
  let ?H = "vec4_get (sizes meta ! 0) 1"
  let ?C = "vec4_get (sizes meta ! 0) 2"
  let ?N = "vec4_get (sizes meta ! 0) 3"
  let ?tot = "?W * ?H * ?C * ?N"
  let ?packed = "cells (nchw_to_int8x4_buffer idxf meta layout num_texels gids_pack nchw_in t_buf)"
  let ?t = "nchw_idx_to_tensor4d ?W ?H ?C (of_nat i)"
  let ?e = "idxf meta ?t layout"
  let ?E = "nat (sint ?e)"
  let ?a = "i div 4"
  let ?fetch = "int8x4_fetch idxf meta layout ?packed ?W ?H ?C"
  have f32: "whcn_numel meta < 2 ^ 32" using fits by simp
  have tot: "unat ?tot = whcn_numel meta" using whcn_numel_unat[OF f32] .
  have itot: "i < unat ?tot" using i tot by simp
  \<comment> \<open>the kernel's coordinate of linear index \<open>i\<close> is the NCHW coordinate of byte \<open>i\<close>\<close>
  have f32': "unat ?W * unat ?H * unat ?C * unat ?N < 2 ^ 32"
    using f32 unfolding whcn_numel_def .
  have i': "i < unat ?W * unat ?H * unat ?C * unat ?N"
    using i unfolding whcn_numel_def .
  note coord = nchw_idx_to_tensor4d_pos[OF f32' i']
  note lane = lane_at[OF ok coord(1)]
  have lane_i: "nchw_to_int8x4_lane idxf meta layout nchw_in ?e = staging_byte nchw_in i"
    using lane(1) unfolding coord(2) .
  \<comment> \<open>the unpack invocation that owns staging word \<open>i div 4\<close>\<close>
  have a_len: "?a < length (cells nchw_out)" using i stg by simp
  have a_small: "?a < 2 ^ 32" using i fits by simp
  have ua: "unat (of_nat ?a :: 32 word) = ?a" using a_small by (simp add: unat_of_nat)
  have a_in: "(of_nat ?a :: 32 word) \<in> set gids_unpack"
    using gu grid_x_mem[of ?a "(whcn_numel meta + 3) div 4"] i by auto
  have a_inb: "\<not> num_out_int32s meta \<le> (of_nat ?a :: 32 word)"
    using i ua unat_num_out_int32s[OF fits] by (simp add: word_le_nat_alt)
  have ex: "\<exists>g \<in> set gids_unpack. \<not> num_out_int32s meta \<le> g \<and> unat g = ?a"
    using a_in a_inb ua by (intro bexI[of _ "of_nat ?a"]) auto
  have cell: "cells (int8x4_buffer_to_nchw idxf meta layout gids_unpack ?packed nchw_out) ! ?a
              = int8x4_buffer_to_nchw_loop ?fetch (of_nat ?a) ?tot 0 0"
    unfolding int8x4_buffer_to_nchw_def
    using dispatch_cell[of "int8x4_buffer_to_nchw_main idxf meta layout ?packed"
        "\<lambda>g. \<not> num_out_int32s meta \<le> g" _ ?a nchw_out gids_unpack,
        OF unpack_main_one_store a_len] ex
    by simp
  \<comment> \<open>byte \<open>i mod 4\<close> of the word it stores\<close>
  have fit4: "unat (of_nat ?a :: 32 word) * 4 + 3 < 2 ^ 32" using ua i fits by simp
  have widx: "(of_nat ?a :: 32 word) * 4 + of_nat (i mod 4) = of_nat i"
    by (rule word_of_nat_div_mod)
  have byte: "byte_of (int8x4_buffer_to_nchw_loop ?fetch (of_nat ?a) ?tot 0 0) (i mod 4)
              = ?fetch (of_nat i)"
    using unpack_loop_byte[of "i mod 4" "of_nat ?a" ?fetch ?tot 0 0, OF _ fit4 int8x4_fetch_masked]
      itot ua widx
    by simp
  \<comment> \<open>which is the byte of the packed buffer the index function points to\<close>
  have fetch: "?fetch (of_nat i) = byte_of (?packed ! (?E div 4)) (?E mod 4)"
    using int8x4_fetch_byte[of idxf meta ?W ?H ?C "of_nat i" layout ?packed, OF lane(2)] .
  have s_len: "?E div 4 < length (cells t_buf)" using lane(3) dev by simp
  have s_in: "(of_nat (?E div 4) :: 32 word) \<in> set gids_pack"
    using gp grid_x_mem[OF lane(3)] by auto
  have eidx: "(of_nat (?E div 4) :: 32 word) * 4 + of_nat (?E mod 4) = ?e"
    using word_of_nat_div_mod[of ?E] of_nat_nat_sint[OF lane(2)] by simp
  have packed: "byte_of (?packed ! (?E div 4)) (?E mod 4)
                = nchw_to_int8x4_lane idxf meta layout nchw_in ?e"
    using pack_cells_byte[OF s_len s_in lane(3), of "?E mod 4" idxf meta layout nchw_in] eidx
    by simp
  show ?thesis
    using cell byte fetch packed lane_i
    by (simp add: staging_byte_byte_of[of "cells (int8x4_buffer_to_nchw idxf meta layout gids_unpack ?packed nchw_out)"])
qed

theorem int8x4_roundtrip_witness:
  "whcn_numel (ex_meta_whcn 3 3 2 3) = 54
   \<and> buf_idx_ok ex_padded_w_buf_idx (ex_meta_whcn 3 3 2 3) 0 18
   \<and> staging_byte (cells (int8x4_buffer_to_nchw ex_padded_w_buf_idx (ex_meta_whcn 3 3 2 3) 0
         (grid_x 14)
         (cells (nchw_to_int8x4_buffer ex_padded_w_buf_idx (ex_meta_whcn 3 3 2 3) 0 18
                   (grid_x 18) ex_nchw_in (ex_empty_buffer 18)))
         (ex_empty_buffer 14))) 53
       = staging_byte ex_nchw_in 53
   \<and> staging_byte ex_nchw_in 53 = 54
   \<and> cells (nchw_to_int8x4_buffer ex_padded_w_buf_idx (ex_meta_whcn 3 3 2 3) 0 18
              (grid_x 18) ex_nchw_in (ex_empty_buffer 18))
       = [0x030201, 0x060504, 0x090807, 0x0C0B0A, 0x0F0E0D, 0x121110,
          0x151413, 0x181716, 0x1B1A19, 0x1E1D1C, 0x21201F, 0x242322,
          0x272625, 0x2A2928, 0x2D2C2B, 0x302F2E, 0x333231, 0x363534]"
proof -
  have n: "whcn_numel (ex_meta_whcn 3 3 2 3) = 54"
    by (simp add: whcn_numel_def ex_meta_whcn_def)
  have h1: "whcn_numel (ex_meta_whcn 3 3 2 3) < 2 ^ 31" using n by simp
  have h2: "buf_idx_ok ex_padded_w_buf_idx (ex_meta_whcn 3 3 2 3) 0 18" by code_simp
  have h3: "length (cells (ex_empty_buffer 18)) = unat (18 :: glsl_uint)"
    by (simp add: ex_empty_buffer_def)
  have h4: "length (cells (ex_empty_buffer 14)) = (whcn_numel (ex_meta_whcn 3 3 2 3) + 3) div 4"
    using n by (simp add: ex_empty_buffer_def)
  have h5: "set (grid_x (unat (18 :: glsl_uint))) \<subseteq> set (grid_x 18)" by simp
  have h6: "set (grid_x ((whcn_numel (ex_meta_whcn 3 3 2 3) + 3) div 4)) \<subseteq> set (grid_x 14)"
    using n by simp
  have h7: "53 < whcn_numel (ex_meta_whcn 3 3 2 3)" using n by simp
  have p: "cells (nchw_to_int8x4_buffer ex_padded_w_buf_idx (ex_meta_whcn 3 3 2 3) 0 18
              (grid_x 18) ex_nchw_in (ex_empty_buffer 18))
       = [0x030201, 0x060504, 0x090807, 0x0C0B0A, 0x0F0E0D, 0x121110,
          0x151413, 0x181716, 0x1B1A19, 0x1E1D1C, 0x21201F, 0x242322,
          0x272625, 0x2A2928, 0x2D2C2B, 0x302F2E, 0x333231, 0x363534]"
    by code_simp
  have v: "staging_byte ex_nchw_in 53 = 54" by code_simp
  from n h2 int8x4_roundtrip[OF h1 h2 h3 h4 h5 h6 h7, of ex_nchw_in] v p
  show ?thesis by (intro conjI)
qed

section \<open>The where kernel, texture variant\<close>

lemma where_texture_loop_lane:
  assumes "j < 4" "sint limit \<le> 4"
  shows "vec4_get (where_texture_loop body pd c limit out_tidx outtex) j =
         (if c \<le> j \<and> int j < sint limit
          then body (vec4_set out_tidx pd (vec4_get out_tidx pd + of_nat (j - c)))
          else vec4_get outtex j)"
  using assms
proof (induction body pd c limit out_tidx outtex rule: where_texture_loop.induct)
  case (1 body pd c limit out_tidx outtex)
  show ?case
  proof (cases "int c < sint limit")
    case False
    then have "where_texture_loop body pd c limit out_tidx outtex = outtex"
      by (subst where_texture_loop.simps) simp
    moreover have "(c \<le> j \<and> int j < sint limit) = False" using False by auto
    ultimately show ?thesis by (simp only: if_False)
  next
    case True
    let ?idx' = "vec4_set out_tidx pd (vec4_get out_tidx pd + 1)"
    let ?tex' = "vec4_set outtex c (body out_tidx)"
    have c4: "c < 4" using True "1.prems"(2) by simp
    have unf: "where_texture_loop body pd c limit out_tidx outtex =
               where_texture_loop body pd (c + 1) limit ?idx' ?tex'"
      using True by (subst where_texture_loop.simps) simp
    have ih: "vec4_get (where_texture_loop body pd (c + 1) limit ?idx' ?tex') j =
         (if c + 1 \<le> j \<and> int j < sint limit
          then body (vec4_set ?idx' pd (vec4_get ?idx' pd + of_nat (j - (c + 1))))
          else vec4_get ?tex' j)"
      using "1.IH"[OF True "1.prems"] .
    show ?thesis
    proof (cases "c + 1 \<le> j")
      case up: True
      then have "(1 :: 32 word) + of_nat (j - (c + 1)) = of_nat (j - c)"
        by (metis Suc_diff_Suc Suc_eq_plus1 Suc_le_lessD of_nat_Suc)
      then have "vec4_get out_tidx pd + 1 + of_nat (j - (c + 1)) = vec4_get out_tidx pd + of_nat (j - c)"
        by (simp add: add.assoc)
      moreover have "vec4_get ?tex' j = vec4_get outtex j"
        using up c4 "1.prems"(1) by (simp add: vec4_get_set)
      ultimately show ?thesis using ih unf up
        by (simp add: vec4_set_set vec4_get_set_same)
    next
      case down: False
      show ?thesis
      proof (cases "j = c")
        case True
        then show ?thesis using ih unf down c4 \<open>int c < sint limit\<close>
          by (simp add: vec4_get_set vec4_set_get_same)
      next
        case False
        then have "\<not> c \<le> j" using down by arith
        then show ?thesis using ih unf down c4 "1.prems"(1) False
          by (simp add: vec4_get_set)
      qed
    qed
  qed
qed

lemma sint_imin: "sint (imin x y) = min (sint x) (sint y)"
  by (auto simp: imin_def word_sless_alt)

lemma where_texture_limit_le: "sint (where_texture_limit outp out_tidx) \<le> 4"
  by (simp add: where_texture_limit_def sint_imin)

lemma where_texture_main_lane:
  assumes "\<not> out_of_bounds_t ix out_pos outp" and "j < 4"
  shows "vec4_get (where_texture_main ix outp condp selfp otherp t_condition t_self t_other
                      out_pos t_out out_pos) j
         = (let out_tidx = texture_pos_to_tensor4d_idx_simple ix outp out_pos
            in if int j < sint (where_texture_limit outp out_tidx)
               then where_texture_comp ix condp selfp otherp t_condition t_self t_other
                      (vec4_set out_tidx (unat (packed_dim outp))
                         (vec4_get out_tidx (unat (packed_dim outp)) + of_nat j))
               else 0)"
proof -
  have z: "vec4_get (Vec4 0 0 0 0 :: 'a vec4) j = 0" by simp
  show ?thesis
    using assms(1)
    by (simp add: where_texture_main_def Let_def imageStore_def z
        where_texture_loop_lane[OF assms(2) where_texture_limit_le])
qed

lemma clamp_tensor4d_idx_Vec4:
  "clamp_tensor4d_idx meta data =
     Vec4 (imin (vec4_get data 0) (vec4_get (sizes_t meta) 0 - 1))
          (imin (vec4_get data 1) (vec4_get (sizes_t meta) 1 - 1))
          (imin (vec4_get data 2) (vec4_get (sizes_t meta) 2 - 1))
          (imin (vec4_get data 3) (vec4_get (sizes_t meta) 3 - 1))"
  by (cases data; cases "sizes_t meta") (simp add: clamp_tensor4d_idx_def)

text \<open>
  C7. For an in-bounds invocation of the texture variant, the loop bound is
  \<open>min(4, sizes[packed_dim] - out_tidx[packed_dim])\<close>, so at most 4. Each lane
  \<open>j\<close> below the bound is computed at that lane's own coordinate, the output coordinate
  with \<open>j\<close> added to its packed dimension: the coordinate is clamped to each operand's
  sizes (\<open>min(coordinate, size - 1)\<close> in every dimension, once for the condition, once
  for self and once for other), the three texels are fetched at the clamped coordinates,
  and the lane is the self element when the condition element is non-zero and the other
  element otherwise. Each lane from the bound on holds zero.
\<close>

theorem where_texture_lanes:
  assumes "\<not> out_of_bounds_t ix out_pos outp" and "j < 4"
  shows "sint (where_texture_limit outp (texture_pos_to_tensor4d_idx_simple ix outp out_pos))
           = min 4 (sint (vec4_get (sizes_t outp) (unat (packed_dim outp))
                          - vec4_get (texture_pos_to_tensor4d_idx_simple ix outp out_pos)
                              (unat (packed_dim outp))))
       \<and> vec4_get (where_texture_main ix outp condp selfp otherp t_condition t_self t_other
                      out_pos t_out out_pos) j
         =
            (if int j < sint (where_texture_limit outp (texture_pos_to_tensor4d_idx_simple ix outp out_pos))
             then (let lane_tidx = vec4_set (texture_pos_to_tensor4d_idx_simple ix outp out_pos) (unat (packed_dim outp))
                                     (vec4_get (texture_pos_to_tensor4d_idx_simple ix outp out_pos) (unat (packed_dim outp)) + of_nat j);
                       clamp = (\<lambda>meta. Vec4
                                  (imin (vec4_get lane_tidx 0) (vec4_get (sizes_t meta) 0 - 1))
                                  (imin (vec4_get lane_tidx 1) (vec4_get (sizes_t meta) 1 - 1))
                                  (imin (vec4_get lane_tidx 2) (vec4_get (sizes_t meta) 2 - 1))
                                  (imin (vec4_get lane_tidx 3) (vec4_get (sizes_t meta) 3 - 1)));
                       elem = (\<lambda>meta. tensor4d_idx_to_texture_element_idx_simple ix meta (clamp meta))
                   in if vec4_get (t_condition (pos (elem condp))) (unat (comp (elem condp))) \<noteq> 0
                      then vec4_get (t_self (pos (elem selfp))) (unat (comp (elem selfp)))
                      else vec4_get (t_other (pos (elem otherp))) (unat (comp (elem otherp))))
             else 0)"
proof -
  have lim: "sint (where_texture_limit outp (texture_pos_to_tensor4d_idx_simple ix outp out_pos))
           = min 4 (sint (vec4_get (sizes_t outp) (unat (packed_dim outp))
                          - vec4_get (texture_pos_to_tensor4d_idx_simple ix outp out_pos)
                              (unat (packed_dim outp))))"
    by (simp add: where_texture_limit_def sint_imin)
  have body: "where_texture_comp ix condp selfp otherp t_condition t_self t_other lane_tidx =
     (let clamp = (\<lambda>meta. Vec4
                      (imin (vec4_get lane_tidx 0) (vec4_get (sizes_t meta) 0 - 1))
                      (imin (vec4_get lane_tidx 1) (vec4_get (sizes_t meta) 1 - 1))
                      (imin (vec4_get lane_tidx 2) (vec4_get (sizes_t meta) 2 - 1))
                      (imin (vec4_get lane_tidx 3) (vec4_get (sizes_t meta) 3 - 1)));
          elem = (\<lambda>meta. tensor4d_idx_to_texture_element_idx_simple ix meta (clamp meta))
      in if vec4_get (t_condition (pos (elem condp))) (unat (comp (elem condp))) \<noteq> 0
         then vec4_get (t_self (pos (elem selfp))) (unat (comp (elem selfp)))
         else vec4_get (t_other (pos (elem otherp))) (unat (comp (elem otherp))))"
    for lane_tidx
    unfolding where_texture_comp_def texelFetch_def Let_def
      clamp_tensor4d_idx_Vec4[symmetric] word_neq_0_conv ..
  have lane: "vec4_get (where_texture_main ix outp condp selfp otherp t_condition t_self t_other
                      out_pos t_out out_pos) j
         =
            (if int j < sint (where_texture_limit outp (texture_pos_to_tensor4d_idx_simple ix outp out_pos))
             then (let lane_tidx = vec4_set (texture_pos_to_tensor4d_idx_simple ix outp out_pos) (unat (packed_dim outp))
                                     (vec4_get (texture_pos_to_tensor4d_idx_simple ix outp out_pos) (unat (packed_dim outp)) + of_nat j);
                       clamp = (\<lambda>meta. Vec4
                                  (imin (vec4_get lane_tidx 0) (vec4_get (sizes_t meta) 0 - 1))
                                  (imin (vec4_get lane_tidx 1) (vec4_get (sizes_t meta) 1 - 1))
                                  (imin (vec4_get lane_tidx 2) (vec4_get (sizes_t meta) 2 - 1))
                                  (imin (vec4_get lane_tidx 3) (vec4_get (sizes_t meta) 3 - 1)));
                       elem = (\<lambda>meta. tensor4d_idx_to_texture_element_idx_simple ix meta (clamp meta))
                   in if vec4_get (t_condition (pos (elem condp))) (unat (comp (elem condp))) \<noteq> 0
                      then vec4_get (t_self (pos (elem selfp))) (unat (comp (elem selfp)))
                      else vec4_get (t_other (pos (elem otherp))) (unat (comp (elem otherp))))
             else 0)"
    unfolding where_texture_main_lane[OF assms(1,2)] Let_def body ..
  from lim lane show ?thesis by (rule conjI)
qed

theorem where_texture_lanes_witness:
  "\<not> out_of_bounds_t ex_indexing (1, 0, 0) (ex_tex_meta 6)
   \<and> sint (where_texture_limit (ex_tex_meta 6)
              (texture_pos_to_tensor4d_idx_simple ex_indexing (ex_tex_meta 6) (1, 0, 0))) = 2
   \<and> vec4_get (where_texture_main ex_indexing (ex_tex_meta 6) (ex_tex_meta 6) (ex_tex_meta 6)
                  (ex_tex_meta 1) ex_t_condition6 ex_t_self ex_t_other1 (1, 0, 0) ex_t_out (1, 0, 0)) 1
       = 21
   \<and> where_texture_main ex_indexing (ex_tex_meta 6) (ex_tex_meta 6) (ex_tex_meta 6)
        (ex_tex_meta 1) ex_t_condition6 ex_t_self ex_t_other1 (1, 0, 0) ex_t_out (1, 0, 0)
       = Vec4 15 21 0 0"
proof -
  have h1: "\<not> out_of_bounds_t ex_indexing (1, 0, 0) (ex_tex_meta 6)" by code_simp
  have h2: "(1 :: nat) < 4" by simp
  have l: "sint (where_texture_limit (ex_tex_meta 6)
              (texture_pos_to_tensor4d_idx_simple ex_indexing (ex_tex_meta 6) (1, 0, 0))) = 2"
    by code_simp
  have r: "
          (if int 1 < sint (where_texture_limit (ex_tex_meta 6) (texture_pos_to_tensor4d_idx_simple ex_indexing (ex_tex_meta 6) (1, 0, 0)))
           then (let lane_tidx = vec4_set (texture_pos_to_tensor4d_idx_simple ex_indexing (ex_tex_meta 6) (1, 0, 0)) (unat (packed_dim (ex_tex_meta 6)))
                                   (vec4_get (texture_pos_to_tensor4d_idx_simple ex_indexing (ex_tex_meta 6) (1, 0, 0)) (unat (packed_dim (ex_tex_meta 6))) + of_nat 1);
                     clamp = (\<lambda>meta. Vec4
                                (imin (vec4_get lane_tidx 0) (vec4_get (sizes_t meta) 0 - 1))
                                (imin (vec4_get lane_tidx 1) (vec4_get (sizes_t meta) 1 - 1))
                                (imin (vec4_get lane_tidx 2) (vec4_get (sizes_t meta) 2 - 1))
                                (imin (vec4_get lane_tidx 3) (vec4_get (sizes_t meta) 3 - 1)));
                     elem = (\<lambda>meta. tensor4d_idx_to_texture_element_idx_simple ex_indexing meta (clamp meta))
                 in if vec4_get (ex_t_condition6 (pos (elem (ex_tex_meta 6)))) (unat (comp (elem (ex_tex_meta 6)))) \<noteq> 0
                    then vec4_get (ex_t_self (pos (elem (ex_tex_meta 6)))) (unat (comp (elem (ex_tex_meta 6))))
                    else vec4_get (ex_t_other1 (pos (elem (ex_tex_meta 1)))) (unat (comp (elem (ex_tex_meta 1)))))
           else 0)
        = (21 :: glsl_int)"
    by code_simp
  note w = where_texture_lanes[OF h1 h2, where condp = "ex_tex_meta 6" and selfp = "ex_tex_meta 6"
        and otherp = "ex_tex_meta 1" and t_condition = ex_t_condition6
        and t_self = ex_t_self and t_other = ex_t_other1 and t_out = ex_t_out]
  have c: "vec4_get (where_texture_main ex_indexing (ex_tex_meta 6) (ex_tex_meta 6) (ex_tex_meta 6)
                  (ex_tex_meta 1) ex_t_condition6 ex_t_self ex_t_other1 (1, 0, 0) ex_t_out (1, 0, 0)) 1
       = 21"
    using w[THEN conjunct2] unfolding r .
  have e: "where_texture_main ex_indexing (ex_tex_meta 6) (ex_tex_meta 6) (ex_tex_meta 6)
        (ex_tex_meta 1) ex_t_condition6 ex_t_self ex_t_other1 (1, 0, 0) ex_t_out (1, 0, 0)
       = Vec4 15 21 0 0"
    by code_simp
  from h1 l c e show ?thesis by (intro conjI)
qed

text \<open>
  C10. An in-bounds invocation of the texture variant stores a whole texel at its
  position: the texel does not depend on what the image held before, and every lane
  from the loop bound on is zero.
\<close>

theorem where_texture_padding_zero:
  assumes "\<not> out_of_bounds_t ix out_pos outp" and "j < 4"
    and "sint (where_texture_limit outp (texture_pos_to_tensor4d_idx_simple ix outp out_pos)) \<le> int j"
  shows "vec4_get (where_texture_main ix outp condp selfp otherp t_condition t_self t_other
                      out_pos t_out out_pos) j = (0 :: 'a :: zero)
       \<and> where_texture_main ix outp condp selfp otherp t_condition t_self t_other out_pos t_out out_pos
         = where_texture_main ix outp condp selfp otherp t_condition t_self t_other out_pos t_out' out_pos"
proof -
  have "vec4_get (where_texture_main ix outp condp selfp otherp t_condition t_self t_other
                      out_pos t_out out_pos) j = (0 :: 'a)"
    using where_texture_main_lane[OF assms(1,2), of condp selfp otherp t_condition t_self t_other t_out]
      assms(3)
    by (simp add: Let_def)
  moreover have "where_texture_main ix outp condp selfp otherp t_condition t_self t_other out_pos t_out out_pos
         = where_texture_main ix outp condp selfp otherp t_condition t_self t_other out_pos t_out' out_pos"
    using assms(1) by (simp add: where_texture_main_def Let_def imageStore_def)
  ultimately show ?thesis by simp
qed

theorem where_texture_padding_zero_witness:
  "\<not> out_of_bounds_t ex_indexing (1, 0, 0) (ex_tex_meta 6)
   \<and> sint (where_texture_limit (ex_tex_meta 6)
              (texture_pos_to_tensor4d_idx_simple ex_indexing (ex_tex_meta 6) (1, 0, 0))) = 2
   \<and> vec4_get (where_texture_main ex_indexing (ex_tex_meta 6) (ex_tex_meta 1) (ex_tex_meta 6)
                  (ex_tex_meta 6) ex_t_condition ex_t_self
                  ex_t_other (1, 0, 0) ex_t_out (1, 0, 0)) 2
       = (0 :: glsl_int)
   \<and> where_texture_main ex_indexing (ex_tex_meta 6) (ex_tex_meta 1) (ex_tex_meta 6)
          (ex_tex_meta 6) ex_t_condition ex_t_self
          ex_t_other (1, 0, 0) ex_t_out (1, 0, 0)
       = where_texture_main ex_indexing (ex_tex_meta 6) (ex_tex_meta 1) (ex_tex_meta 6)
          (ex_tex_meta 6) ex_t_condition ex_t_self
          ex_t_other (1, 0, 0) ex_t_out' (1, 0, 0)
   \<and> where_texture_main ex_indexing (ex_tex_meta 6) (ex_tex_meta 1) (ex_tex_meta 6)
          (ex_tex_meta 6) ex_t_condition ex_t_self
          ex_t_other (1, 0, 0) ex_t_out (1, 0, 0)
       = Vec4 15 16 0 (0 :: glsl_int)"
proof -
  have h1: "\<not> out_of_bounds_t ex_indexing (1, 0, 0) (ex_tex_meta 6)" by code_simp
  have h2: "(2 :: nat) < 4" by simp
  have l: "sint (where_texture_limit (ex_tex_meta 6)
              (texture_pos_to_tensor4d_idx_simple ex_indexing (ex_tex_meta 6) (1, 0, 0))) = 2"
    by code_simp
  have h3: "sint (where_texture_limit (ex_tex_meta 6)
              (texture_pos_to_tensor4d_idx_simple ex_indexing (ex_tex_meta 6) (1, 0, 0)))
            \<le> int 2"
    using l by simp
  have e: "where_texture_main ex_indexing (ex_tex_meta 6) (ex_tex_meta 1) (ex_tex_meta 6)
          (ex_tex_meta 6) ex_t_condition ex_t_self
          ex_t_other (1, 0, 0) ex_t_out (1, 0, 0)
       = Vec4 15 16 0 (0 :: glsl_int)"
    by code_simp
  note w = where_texture_padding_zero[OF h1 h2 h3, where condp = "ex_tex_meta 1"
        and selfp = "ex_tex_meta 6" and otherp = "ex_tex_meta 6" and t_condition = ex_t_condition
        and t_self = ex_t_self
        and t_other = ex_t_other and t_out = ex_t_out
        and t_out' = ex_t_out']
  from h1 l w[THEN conjunct1] w[THEN conjunct2] e show ?thesis by (intro conjI)
qed

section \<open>Bounds checks and write addresses\<close>

lemma dispatch_skip:
  assumes "\<And>g s. \<not> inb g \<Longrightarrow> k g s = s"
  shows "dispatch k gids s = dispatch k (filter inb gids) s"
  by (induction gids arbitrary: s) (simp_all add: assms)

lemma where_texture_main_skip:
  "out_of_bounds_t ix p outp \<Longrightarrow>
   where_texture_main ix outp condp selfp otherp t_condition t_self t_other p img = img"
  by (simp add: where_texture_main_def)

text \<open>
  C6. An invocation whose global index fails the bounds check at the kernel's entry
  returns the output as it found it, cells and trace of stores alike: the buffer variant
  of where, the unpack kernel and the texture variant of where. A dispatch on any grid
  therefore leaves exactly what its in-range invocations produce.
\<close>

theorem out_of_bounds_invocation_skips:
  "(out_of_bounds g outp \<longrightarrow>
      where_buffer_main outp condp selfp otherp t_condition t_self t_other g t_out = t_out)
   \<and> (num_out_int32s inp \<le> g' \<longrightarrow>
      int8x4_buffer_to_nchw_main idxf inp layout t_inp g' nchw_out = nchw_out)
   \<and> (out_of_bounds_t ix p outp_t \<longrightarrow>
      where_texture_main ix outp_t condp_t selfp_t otherp_t img_condition img_self img_other
        p img = img)
   \<and> dispatch (where_buffer_main outp condp selfp otherp t_condition t_self t_other) gids t_out
     = dispatch (where_buffer_main outp condp selfp otherp t_condition t_self t_other)
         (filter (\<lambda>g. \<not> out_of_bounds g outp) gids) t_out
   \<and> dispatch (int8x4_buffer_to_nchw_main idxf inp layout t_inp) gids' nchw_out
     = dispatch (int8x4_buffer_to_nchw_main idxf inp layout t_inp)
         (filter (\<lambda>g. \<not> num_out_int32s inp \<le> g) gids') nchw_out
   \<and> dispatch (where_texture_main ix outp_t condp_t selfp_t otherp_t img_condition img_self
                 img_other) ps img
     = dispatch (where_texture_main ix outp_t condp_t selfp_t otherp_t img_condition img_self
                   img_other) (filter (\<lambda>p. \<not> out_of_bounds_t ix p outp_t) ps) img"
proof -
  have 1: "out_of_bounds g outp \<longrightarrow>
      where_buffer_main outp condp selfp otherp t_condition t_self t_other g t_out = t_out"
    by (simp add: where_buffer_main_one_store)
  have 2: "num_out_int32s inp \<le> g' \<longrightarrow>
      int8x4_buffer_to_nchw_main idxf inp layout t_inp g' nchw_out = nchw_out"
    by (simp add: unpack_main_one_store)
  have 3: "out_of_bounds_t ix p outp_t \<longrightarrow>
      where_texture_main ix outp_t condp_t selfp_t otherp_t img_condition img_self img_other
        p img = img"
    by (simp add: where_texture_main_skip)
  have 4: "dispatch (where_buffer_main outp condp selfp otherp t_condition t_self t_other) gids t_out
     = dispatch (where_buffer_main outp condp selfp otherp t_condition t_self t_other)
         (filter (\<lambda>g. \<not> out_of_bounds g outp) gids) t_out"
    by (rule dispatch_skip) (simp add: where_buffer_main_one_store)
  have 5: "dispatch (int8x4_buffer_to_nchw_main idxf inp layout t_inp) gids' nchw_out
     = dispatch (int8x4_buffer_to_nchw_main idxf inp layout t_inp)
         (filter (\<lambda>g. \<not> num_out_int32s inp \<le> g) gids') nchw_out"
    by (rule dispatch_skip) (simp add: unpack_main_one_store)
  have 6: "dispatch (where_texture_main ix outp_t condp_t selfp_t otherp_t img_condition img_self
                 img_other) ps img
     = dispatch (where_texture_main ix outp_t condp_t selfp_t otherp_t img_condition img_self
                   img_other) (filter (\<lambda>p. \<not> out_of_bounds_t ix p outp_t) ps) img"
    by (rule dispatch_skip) (simp add: where_texture_main_skip)
  from 1 2 3 4 5 6 show ?thesis by (intro conjI)
qed

theorem out_of_bounds_invocation_skips_witness:
  "out_of_bounds 7 (ex_meta_1d 4)
   \<and> where_buffer_main (ex_meta_1d 4) (ex_meta_1d 1) (ex_meta_1d 4) (ex_meta_1d 4)
        [1] [5, 6, 7, 8] [0, 0, 0, 0] 7 (ex_empty_buffer 4) = ex_empty_buffer 4
   \<and> num_out_int32s (ex_meta_whcn 5 2 1 1) \<le> 3
   \<and> int8x4_buffer_to_nchw_main ex_padded_w_buf_idx (ex_meta_whcn 5 2 1 1) 0
        [0x04030201, 0x05, 0x09080706, 0x0A] 3 (ex_empty_buffer 3) = ex_empty_buffer 3
   \<and> out_of_bounds_t ex_indexing (2, 0, 0) (ex_tex_meta 6)
   \<and> where_texture_main ex_indexing (ex_tex_meta 6) (ex_tex_meta 1) (ex_tex_meta 6)
        (ex_tex_meta 6) ex_t_condition ex_t_self ex_t_other (2, 0, 0) ex_t_out = ex_t_out
   \<and> dispatch (where_buffer_main (ex_meta_1d 4) (ex_meta_1d 1) (ex_meta_1d 4) (ex_meta_1d 4)
                 [1] [5, 6, 7, 8] [0, 0, 0, 0]) (grid_x 8) (ex_empty_buffer 4)
     = dispatch (where_buffer_main (ex_meta_1d 4) (ex_meta_1d 1) (ex_meta_1d 4) (ex_meta_1d 4)
                   [1] [5, 6, 7, 8] [0, 0, 0, 0]) (grid_x 4) (ex_empty_buffer 4)
   \<and> dispatch (int8x4_buffer_to_nchw_main ex_padded_w_buf_idx (ex_meta_whcn 5 2 1 1) 0
                 [0x04030201, 0x05, 0x09080706, 0x0A]) (grid_x 64) (ex_empty_buffer 3)
     = dispatch (int8x4_buffer_to_nchw_main ex_padded_w_buf_idx (ex_meta_whcn 5 2 1 1) 0
                   [0x04030201, 0x05, 0x09080706, 0x0A]) (grid_x 3) (ex_empty_buffer 3)"
proof -
  have h1: "out_of_bounds 7 (ex_meta_1d 4)" by code_simp
  have h2: "num_out_int32s (ex_meta_whcn 5 2 1 1) \<le> 3" by code_simp
  have h3: "out_of_bounds_t ex_indexing (2, 0, 0) (ex_tex_meta 6)" by code_simp
  have f1: "filter (\<lambda>g. \<not> out_of_bounds g (ex_meta_1d 4)) (grid_x 8) = grid_x 4" by code_simp
  have f2: "filter (\<lambda>g. \<not> num_out_int32s (ex_meta_whcn 5 2 1 1) \<le> g) (grid_x 64) = grid_x 3"
    by code_simp
  note w = out_of_bounds_invocation_skips[where g = 7 and outp = "ex_meta_1d 4"
      and condp = "ex_meta_1d 1" and selfp = "ex_meta_1d 4" and otherp = "ex_meta_1d 4"
      and t_condition = "[1]" and t_self = "[5, 6, 7, 8]" and t_other = "[0, 0, 0, 0]"
      and t_out = "ex_empty_buffer 4" and gids = "grid_x 8"
      and inp = "ex_meta_whcn 5 2 1 1" and idxf = ex_padded_w_buf_idx and layout = 0
      and t_inp = "[0x04030201, 0x05, 0x09080706, 0x0A]" and g' = 3
      and nchw_out = "ex_empty_buffer 3" and gids' = "grid_x 64"
      and ix = ex_indexing and p = "(2, 0, 0)" and outp_t = "ex_tex_meta 6"
      and condp_t = "ex_tex_meta 1" and selfp_t = "ex_tex_meta 6" and otherp_t = "ex_tex_meta 6"
      and img_condition = ex_t_condition and img_self = ex_t_self and img_other = ex_t_other
      and img = ex_t_out and ps = "[]"]
  have c1: "where_buffer_main (ex_meta_1d 4) (ex_meta_1d 1) (ex_meta_1d 4) (ex_meta_1d 4)
        [1] [5, 6, 7, 8] [0, 0, 0, 0] 7 (ex_empty_buffer 4) = ex_empty_buffer 4"
    using w h1 by blast
  have c2: "int8x4_buffer_to_nchw_main ex_padded_w_buf_idx (ex_meta_whcn 5 2 1 1) 0
        [0x04030201, 0x05, 0x09080706, 0x0A] 3 (ex_empty_buffer 3) = ex_empty_buffer 3"
    using w h2 by blast
  have c3: "where_texture_main ex_indexing (ex_tex_meta 6) (ex_tex_meta 1) (ex_tex_meta 6)
        (ex_tex_meta 6) ex_t_condition ex_t_self ex_t_other (2, 0, 0) ex_t_out = ex_t_out"
    using w h3 by blast
  have c4: "dispatch (where_buffer_main (ex_meta_1d 4) (ex_meta_1d 1) (ex_meta_1d 4) (ex_meta_1d 4)
                 [1] [5, 6, 7, 8] [0, 0, 0, 0]) (grid_x 8) (ex_empty_buffer 4)
     = dispatch (where_buffer_main (ex_meta_1d 4) (ex_meta_1d 1) (ex_meta_1d 4) (ex_meta_1d 4)
                   [1] [5, 6, 7, 8] [0, 0, 0, 0]) (grid_x 4) (ex_empty_buffer 4)"
    using w unfolding f1 by blast
  have c5: "dispatch (int8x4_buffer_to_nchw_main ex_padded_w_buf_idx (ex_meta_whcn 5 2 1 1) 0
                 [0x04030201, 0x05, 0x09080706, 0x0A]) (grid_x 64) (ex_empty_buffer 3)
     = dispatch (int8x4_buffer_to_nchw_main ex_padded_w_buf_idx (ex_meta_whcn 5 2 1 1) 0
                   [0x04030201, 0x05, 0x09080706, 0x0A]) (grid_x 3) (ex_empty_buffer 3)"
    using w unfolding f2 by blast
  from h1 c1 h2 c2 h3 c3 c4 c5 show ?thesis by (intro conjI)
qed

lemma distinct_map_unat: "distinct gids \<Longrightarrow> distinct (map unat (filter inb gids))"
  by (auto simp: distinct_map inj_on_def word_unat_eq_iff)

text \<open>
  C9. An invocation of the buffer variant of where, or of the unpack kernel, that passes
  the bounds check appends exactly one store to the trace, at the address that is its
  global invocation index; one that fails the check appends none. Distinct indices are
  distinct addresses, so in a dispatch (whose invocations have distinct indices) no
  address is stored to twice.
\<close>

theorem invocation_writes_own_address:
  "writes (where_buffer_main outp condp selfp otherp t_condition t_self t_other g t_out)
     = writes t_out @ (if out_of_bounds g outp then [] else [unat g])
   \<and> writes (int8x4_buffer_to_nchw_main idxf inp layout t_inp g nchw_out)
     = writes nchw_out @ (if num_out_int32s inp \<le> g then [] else [unat g])
   \<and> (g \<noteq> g' \<longrightarrow> unat g \<noteq> unat g')
   \<and> (distinct gids \<and> writes t_out = [] \<longrightarrow>
        distinct (writes (dispatch
          (where_buffer_main outp condp selfp otherp t_condition t_self t_other) gids t_out)))
   \<and> (distinct gids \<and> writes nchw_out = [] \<longrightarrow>
        distinct (writes (dispatch
          (int8x4_buffer_to_nchw_main idxf inp layout t_inp) gids nchw_out)))"
proof -
  have 1: "writes (where_buffer_main outp condp selfp otherp t_condition t_self t_other g t_out)
     = writes t_out @ (if out_of_bounds g outp then [] else [unat g])"
    by (simp add: where_buffer_main_one_store)
  have 2: "writes (int8x4_buffer_to_nchw_main idxf inp layout t_inp g nchw_out)
     = writes nchw_out @ (if num_out_int32s inp \<le> g then [] else [unat g])"
    by (simp add: unpack_main_one_store)
  have 3: "g \<noteq> g' \<longrightarrow> unat g \<noteq> unat g'" by (simp add: word_unat_eq_iff)
  have 4: "distinct gids \<and> writes t_out = [] \<longrightarrow>
        distinct (writes (dispatch
          (where_buffer_main outp condp selfp otherp t_condition t_self t_other) gids t_out))"
    using dispatch_writes[of "where_buffer_main outp condp selfp otherp t_condition t_self t_other"
        "\<lambda>g. \<not> out_of_bounds g outp", OF where_buffer_main_one_store, of gids t_out]
      distinct_map_unat[of gids "\<lambda>g. \<not> out_of_bounds g outp"]
    by simp
  have 5: "distinct gids \<and> writes nchw_out = [] \<longrightarrow>
        distinct (writes (dispatch
          (int8x4_buffer_to_nchw_main idxf inp layout t_inp) gids nchw_out))"
    using dispatch_writes[of "int8x4_buffer_to_nchw_main idxf inp layout t_inp"
        "\<lambda>g. \<not> num_out_int32s inp \<le> g", OF unpack_main_one_store, of gids nchw_out]
      distinct_map_unat[of gids "\<lambda>g. \<not> num_out_int32s inp \<le> g"]
    by simp
  from 1 2 3 4 5 show ?thesis by (intro conjI)
qed

theorem invocation_writes_own_address_witness:
  "\<not> out_of_bounds 2 (ex_meta_1d 4)
   \<and> writes (where_buffer_main (ex_meta_1d 4) (ex_meta_1d 1) (ex_meta_1d 4) (ex_meta_1d 4)
               [1] [5, 6, 7, 8] [0, 0, 0, 0] 2 (ex_empty_buffer 4)) = [2]
   \<and> \<not> num_out_int32s (ex_meta_whcn 5 2 1 1) \<le> 2
   \<and> writes (int8x4_buffer_to_nchw_main ex_padded_w_buf_idx (ex_meta_whcn 5 2 1 1) 0
               [0x04030201, 0x05, 0x09080706, 0x0A] 2 (ex_empty_buffer 3)) = [2]
   \<and> unat (2 :: glsl_uint) \<noteq> unat (3 :: glsl_uint)
   \<and> distinct (grid_x 8)
   \<and> distinct (writes (dispatch (where_buffer_main (ex_meta_1d 4) (ex_meta_1d 1) (ex_meta_1d 4)
                 (ex_meta_1d 4) [1] [5, 6, 7, 8] [0, 0, 0, 0]) (grid_x 8) (ex_empty_buffer 4)))
   \<and> distinct (writes (dispatch (int8x4_buffer_to_nchw_main ex_padded_w_buf_idx
                 (ex_meta_whcn 5 2 1 1) 0 [0x04030201, 0x05, 0x09080706, 0x0A])
                 (grid_x 8) (ex_empty_buffer 3)))
   \<and> writes (dispatch (int8x4_buffer_to_nchw_main ex_padded_w_buf_idx
                 (ex_meta_whcn 5 2 1 1) 0 [0x04030201, 0x05, 0x09080706, 0x0A])
                 (grid_x 8) (ex_empty_buffer 3)) = [0, 1, 2]"
proof -
  have h1: "\<not> out_of_bounds 2 (ex_meta_1d 4)" by code_simp
  have h2: "\<not> num_out_int32s (ex_meta_whcn 5 2 1 1) \<le> 2" by code_simp
  have h3: "(2 :: glsl_uint) \<noteq> 3" by simp
  have h4: "distinct (grid_x 8)" by code_simp
  have e1: "writes (ex_empty_buffer 4) = []" by (simp add: ex_empty_buffer_def)
  have e2: "writes (ex_empty_buffer 3) = []" by (simp add: ex_empty_buffer_def)
  have v: "writes (dispatch (int8x4_buffer_to_nchw_main ex_padded_w_buf_idx
                 (ex_meta_whcn 5 2 1 1) 0 [0x04030201, 0x05, 0x09080706, 0x0A])
                 (grid_x 8) (ex_empty_buffer 3)) = [0, 1, 2]"
    by code_simp
  note w = invocation_writes_own_address[where g = 2 and g' = 3 and outp = "ex_meta_1d 4"
      and condp = "ex_meta_1d 1" and selfp = "ex_meta_1d 4" and otherp = "ex_meta_1d 4"
      and t_condition = "[1]" and t_self = "[5, 6, 7, 8]" and t_other = "[0, 0, 0, 0]"
      and t_out = "ex_empty_buffer 4" and gids = "grid_x 8"
      and inp = "ex_meta_whcn 5 2 1 1" and idxf = ex_padded_w_buf_idx and layout = 0
      and t_inp = "[0x04030201, 0x05, 0x09080706, 0x0A]" and nchw_out = "ex_empty_buffer 3"]
  have c1: "writes (where_buffer_main (ex_meta_1d 4) (ex_meta_1d 1) (ex_meta_1d 4) (ex_meta_1d 4)
               [1] [5, 6, 7, 8] [0, 0, 0, 0] 2 (ex_empty_buffer 4)) = [2]"
    using w[THEN conjunct1] h1 e1 by simp
  have c2: "writes (int8x4_buffer_to_nchw_main ex_padded_w_buf_idx (ex_meta_whcn 5 2 1 1) 0
               [0x04030201, 0x05, 0x09080706, 0x0A] 2 (ex_empty_buffer 3)) = [2]"
    using w[THEN conjunct2, THEN conjunct1] h2 e2 by simp
  have c3: "unat (2 :: glsl_uint) \<noteq> unat (3 :: glsl_uint)"
    using w h3 by blast
  have c4: "distinct (writes (dispatch (where_buffer_main (ex_meta_1d 4) (ex_meta_1d 1)
              (ex_meta_1d 4) (ex_meta_1d 4) [1] [5, 6, 7, 8] [0, 0, 0, 0]) (grid_x 8)
              (ex_empty_buffer 4)))"
    using w h4 e1 by blast
  have c5: "distinct (writes (dispatch (int8x4_buffer_to_nchw_main ex_padded_w_buf_idx
                 (ex_meta_whcn 5 2 1 1) 0 [0x04030201, 0x05, 0x09080706, 0x0A])
                 (grid_x 8) (ex_empty_buffer 3)))"
    using w h4 e2 by blast
  from h1 c1 h2 c2 c3 h4 c4 c5 v show ?thesis by (intro conjI)
qed

end
